theory Spec2Isabelle
  imports Main
begin

section \<open>The webhook relay of \<^verbatim>\<open>server.js\<close>\<close>

text \<open>
  \<^verbatim>\<open>server.js\<close> is an Express application with two routes, a fallback and an error
  boundary. The development below embeds it as it is written: the values a parsed
  request body can hold, the conversions JavaScript applies to them
  (\<^verbatim>\<open>ToString\<close>, truthiness, \<^verbatim>\<open>parseInt\<close>), the \<^verbatim>\<open>for\<close> loop that collects the
  attachment URLs, the handler with its two \<^verbatim>\<open>try\<close>/\<^verbatim>\<open>catch\<close> blocks, the routing
  table and the start-up check of the environment.

  Effects are explicit: a handler returns the list of the effects it performed, in
  the order of the calls (\<^verbatim>\<open>console.log\<close>, \<^verbatim>\<open>res.status(..).send(..)\<close>,
  \<^verbatim>\<open>axios.post\<close>). What the handler reads from outside (the clock, the outcome of the
  forward call) is an argument. An exception is a value; a loop that does not end is
  the result \<open>None\<close>.
\<close>

subsection \<open>Values\<close>

text \<open>
  The values of \<^verbatim>\<open>req.body\<close> and of its fields, as \<^verbatim>\<open>express.json\<close> and
  \<^verbatim>\<open>express.urlencoded({extended: true})\<close> build them, and \<^verbatim>\<open>undefined\<close> for a field
  that is not there. Strings are byte strings (UTF-8). A number is carried as the
  text \<^verbatim>\<open>Number::toString\<close> gives for it: the handler observes a number only
  through that text (template literals, \<^verbatim>\<open>parseInt\<close>) and through its truthiness,
  and \<^verbatim>\<open>0\<close>, \<^verbatim>\<open>-0\<close> and \<^verbatim>\<open>NaN\<close> are the numbers whose text is \<^verbatim>\<open>0\<close> or \<^verbatim>\<open>NaN\<close>.
  An object is the list of its own properties.
\<close>

datatype jsval =
    JUndefined
  | JNull
  | JBool bool
  | JNum string
  | JStr string
  | JArr "jsval list"
  | JObj "(string \<times> jsval) list"

datatype js_error = TypeError

text \<open>\<^verbatim>\<open>if (v)\<close>: the falsy values are \<^verbatim>\<open>undefined\<close>, \<^verbatim>\<open>null\<close>, \<^verbatim>\<open>false\<close>, \<^verbatim>\<open>0\<close>,
  \<^verbatim>\<open>NaN\<close> and the empty string; every array and object is truthy.\<close>

fun truthy :: "jsval \<Rightarrow> bool" where
  "truthy JUndefined = False"
| "truthy JNull = False"
| "truthy (JBool b) = b"
| "truthy (JNum t) = (t \<noteq> ''0'' \<and> t \<noteq> ''NaN'')"
| "truthy (JStr s) = (s \<noteq> [])"
| "truthy (JArr xs) = True"
| "truthy (JObj kvs) = True"

text \<open>
  \<^verbatim>\<open>o[k]\<close> for the property names the program reads (\<^verbatim>\<open>From\<close>, \<^verbatim>\<open>To\<close>, \<^verbatim>\<open>Body\<close>,
  \<^verbatim>\<open>MessageSid\<close>, \<^verbatim>\<open>NumMedia\<close>, \<^verbatim>\<open>MediaUrl\<close>\<open>i\<close>, \<^verbatim>\<open>message\<close>, \<^verbatim>\<open>response\<close>,
  \<^verbatim>\<open>status\<close>, \<^verbatim>\<open>data\<close>): none of them is a property of a prototype, so the lookup
  finds an own property of an object or nothing. Reading a property of \<^verbatim>\<open>undefined\<close>
  or \<^verbatim>\<open>null\<close> throws.
\<close>

fun own_prop :: "jsval \<Rightarrow> string \<Rightarrow> jsval" where
  "own_prop (JObj kvs) k = (case map_of kvs k of Some v \<Rightarrow> v | None \<Rightarrow> JUndefined)"
| "own_prop v k = JUndefined"

definition get_prop :: "jsval \<Rightarrow> string \<Rightarrow> js_error + jsval" where
  "get_prop v k = (if v = JUndefined \<or> v = JNull then Inl TypeError else Inr (own_prop v k))"

text \<open>
  \<^verbatim>\<open>ToString\<close>. An array is joined with commas, \<^verbatim>\<open>undefined\<close> and \<^verbatim>\<open>null\<close> elements
  giving the empty text. An object built by a body parser holds no function, so an
  own property \<^verbatim>\<open>toString\<close> hides \<^verbatim>\<open>Object.prototype.toString\<close> with a value that
  cannot be called; \<^verbatim>\<open>valueOf\<close> then gives no primitive either and the conversion
  throws a \<^verbatim>\<open>TypeError\<close>.
\<close>

fun to_string :: "jsval \<Rightarrow> js_error + string"
  and join_elems :: "jsval list \<Rightarrow> js_error + string" where
  "to_string JUndefined = Inr ''undefined''"
| "to_string JNull = Inr ''null''"
| "to_string (JBool b) = Inr (if b then ''true'' else ''false'')"
| "to_string (JNum t) = Inr t"
| "to_string (JStr s) = Inr s"
| "to_string (JArr xs) = join_elems xs"
| "to_string (JObj kvs) =
     (if ''toString'' \<in> set (map fst kvs) then Inl TypeError else Inr ''[object Object]'')"
| "join_elems [] = Inr []"
| "join_elems (x # xs) =
     (case (if x = JUndefined \<or> x = JNull then Inr [] else to_string x) of
        Inl e \<Rightarrow> Inl e
      | Inr s \<Rightarrow>
          (if xs = [] then Inr s
           else (case join_elems xs of Inl e \<Rightarrow> Inl e | Inr t \<Rightarrow> Inr (s @ '','' @ t))))"

subsection \<open>\<^verbatim>\<open>parseInt(text, 10)\<close>\<close>

text \<open>
  Leading white space is dropped (the ECMAScript \<^verbatim>\<open>WhiteSpace\<close> and
  \<^verbatim>\<open>LineTerminator\<close> code points, here in UTF-8), then one sign, then the longest
  run of decimal digits is read; no digit gives \<^verbatim>\<open>NaN\<close>. With radix 10 no
  \<^verbatim>\<open>0x\<close> prefix is recognised.
\<close>

definition ws1 :: "string list" where
  "ws1 = [[CHR 0x09], [CHR 0x0A], [CHR 0x0B], [CHR 0x0C], [CHR 0x0D], [CHR 0x20]]"

definition ws2 :: "string list" where
  "ws2 = [[CHR 0xC2, CHR 0xA0]]"

definition ws3 :: "string list" where
  "ws3 =
     [[CHR 0xE1, CHR 0x9A, CHR 0x80],
      [CHR 0xE2, CHR 0x80, CHR 0x80], [CHR 0xE2, CHR 0x80, CHR 0x81],
      [CHR 0xE2, CHR 0x80, CHR 0x82], [CHR 0xE2, CHR 0x80, CHR 0x83],
      [CHR 0xE2, CHR 0x80, CHR 0x84], [CHR 0xE2, CHR 0x80, CHR 0x85],
      [CHR 0xE2, CHR 0x80, CHR 0x86], [CHR 0xE2, CHR 0x80, CHR 0x87],
      [CHR 0xE2, CHR 0x80, CHR 0x88], [CHR 0xE2, CHR 0x80, CHR 0x89],
      [CHR 0xE2, CHR 0x80, CHR 0x8A],
      [CHR 0xE2, CHR 0x80, CHR 0xA8], [CHR 0xE2, CHR 0x80, CHR 0xA9],
      [CHR 0xE2, CHR 0x80, CHR 0xAF],
      [CHR 0xE2, CHR 0x81, CHR 0x9F],
      [CHR 0xE3, CHR 0x80, CHR 0x80],
      [CHR 0xEF, CHR 0xBB, CHR 0xBF]]"

fun trim_start :: "string \<Rightarrow> string" where
  "trim_start [] = []"
| "trim_start (c # s) =
     (if [c] \<in> set ws1 then trim_start s
      else if c # take 1 s \<in> set ws2 then trim_start (drop 1 s)
      else if c # take 2 s \<in> set ws3 then trim_start (drop 2 s)
      else c # s)"

definition is_digit :: "char \<Rightarrow> bool" where
  "is_digit c = (c \<in> set ''0123456789'')"

definition digit_val :: "char \<Rightarrow> int" where
  "digit_val c = int (of_char c) - 48"

definition digits_val :: "string \<Rightarrow> int" where
  "digits_val ds = foldl (\<lambda>a c. 10 * a + digit_val c) 0 ds"

text \<open>The mathematical integer \<^verbatim>\<open>parseInt\<close> reads, \<open>None\<close> for \<^verbatim>\<open>NaN\<close>.\<close>

definition unsigned :: "string \<Rightarrow> string" where
  "unsigned t = (if take 1 t = ''-'' \<or> take 1 t = ''+'' then drop 1 t else t)"

definition parse_digits :: "string \<Rightarrow> int option" where
  "parse_digits s =
     (let t = trim_start s;
          neg = (take 1 t = ''-'');
          z = takeWhile is_digit (unsigned t)
      in if z = [] then None
         else Some (if neg then - digits_val z else digits_val z))"

text \<open>
  \<^verbatim>\<open>parseInt\<close> returns the double nearest to that integer, and the loop counter
  \<^verbatim>\<open>i\<close> is a double too. The counter starts at 0 and grows by one, so it ranges over
  the integers from 0 to \<open>2\<^sup>5\<^sup>3\<close>, where \<^verbatim>\<open>i++\<close> stops changing it
  (\<open>2\<^sup>5\<^sup>3 + 1\<close> is no double and rounds back to \<open>2\<^sup>5\<^sup>3\<close>). A count is
  therefore one of: \<^verbatim>\<open>NaN\<close>; \<open>Exact n\<close>, a double that compares with such a
  counter as the integer \<open>n\<close> does (every integer up to \<open>2\<^sup>5\<^sup>3\<close> is a double,
  \<open>2\<^sup>5\<^sup>3 + 1\<close> rounds to \<open>2\<^sup>5\<^sup>3\<close>, a negative integer rounds to a negative
  double); \<open>Beyond\<close>, a double above \<open>2\<^sup>5\<^sup>3\<close>, \<^verbatim>\<open>Infinity\<close> included, which
  no counter reaches.
\<close>

datatype count = NaN | Exact int | Beyond

definition to_count :: "int option \<Rightarrow> count" where
  "to_count r =
     (case r of
        None \<Rightarrow> NaN
      | Some n \<Rightarrow>
          if n \<le> 2 ^ 53 then Exact n
          else if n = 2 ^ 53 + 1 then Exact (2 ^ 53)
          else Beyond)"

definition parseInt :: "jsval \<Rightarrow> js_error + count" where
  "parseInt v =
     (case to_string v of Inl e \<Rightarrow> Inl e | Inr s \<Rightarrow> Inr (to_count (parse_digits s)))"

text \<open>\<^verbatim>\<open>i < mediaCount\<close> and \<^verbatim>\<open>i++\<close> on such a counter.\<close>

fun less_count :: "nat \<Rightarrow> count \<Rightarrow> bool" where
  "less_count i NaN = False"
| "less_count i (Exact n) = (int i < n)"
| "less_count i Beyond = True"

definition incr :: "nat \<Rightarrow> nat" where
  "incr i = (if i < 2 ^ 53 then i + 1 else i)"

text \<open>The text of a counter in a template literal: its decimal digits.\<close>

definition digit_char :: "nat \<Rightarrow> char" where
  "digit_char d = ''0123456789'' ! d"

fun nat_text :: "nat \<Rightarrow> string" where
  "nat_text n =
     (if n < 10 then [digit_char n]
      else nat_text (n div 10) @ [digit_char (n mod 10)])"

declare nat_text.simps [simp del]

subsection \<open>The attachment loop\<close>

text \<open>
  \<^verbatim>\<open>
  const mediaUrls = [];
  const mediaCount = parseInt(numMedia, 10);
  for (let i = 0; i < mediaCount; i++) {
    const mediaUrl = req.body[`MediaUrl${i}`];
    if (mediaUrl) { mediaUrls.push(mediaUrl); }
  }
  \<close>
  The loop need not end, so it is a partial function: \<open>None\<close> is a run that never
  leaves the loop.
\<close>

definition media_key :: "nat \<Rightarrow> string" where
  "media_key i = ''MediaUrl'' @ nat_text i"

partial_function (option) media_loop ::
  "jsval \<Rightarrow> count \<Rightarrow> nat \<Rightarrow> jsval list \<Rightarrow> jsval list option" where
  "media_loop reqBody mediaCount i mediaUrls =
     (if less_count i mediaCount then
        media_loop reqBody mediaCount (incr i)
          (if truthy (own_prop reqBody (media_key i))
           then mediaUrls @ [own_prop reqBody (media_key i)]
           else mediaUrls)
      else Some mediaUrls)"

declare media_loop.simps [code]

subsection \<open>Configuration, requests and effects\<close>

record config =
  MAIN_APP_URL :: string
  SUPABASE_ANON_KEY :: string
  DEBUG_MODE :: bool

record request =
  req_method :: string
  req_path :: string
  req_headers :: "(string \<times> string) list"
  req_body :: jsval

text \<open>The call \<^verbatim>\<open>axios.post(url, payload, {headers, timeout})\<close>.\<close>

record forward_call =
  url :: string
  payload :: jsval
  call_headers :: "(string \<times> string) list"
  timeout :: nat

text \<open>
  How the awaited call ends. \<^verbatim>\<open>axios\<close> resolves with a response object, of which the
  handler reads \<^verbatim>\<open>data\<close>: \<open>Fulfilled\<close> carries it. \<open>Rejected\<close> carries the value
  the \<^verbatim>\<open>await\<close> throws: for \<^verbatim>\<open>axios\<close> an error object with a \<^verbatim>\<open>message\<close> and, when the
  downstream answered with a status outside 2xx, a \<^verbatim>\<open>response\<close>; a network failure
  and a timeout have no \<^verbatim>\<open>response\<close>.
\<close>

datatype forward_outcome = Fulfilled jsval | Rejected jsval

text \<open>What a request reads from outside: the clock and the outcome of the forward call.\<close>

record world =
  logged_at :: string
  start_ms :: int
  iso_now :: string
  outcome :: forward_outcome
  end_ms :: int

datatype log_line =
    Received string string
  | Forwarding string
  | Forwarded int
  | ForwardResponse jsval
  | ForwardFailed int jsval
  | ResponseStatus jsval
  | ResponseData jsval
  | WebhookError js_error
  | RequestLine string string string
  | RequestHeaders "(string \<times> string) list"
  | RequestBody jsval
  | GlobalError jsval

datatype resp_body = Text string | Json jsval

datatype effect =
    Log log_line
  | Respond nat resp_body
  | Forward forward_call

text \<open>A run of a handler: its effects in order, and the exception that left it, if any.\<close>

type_synonym run = "effect list \<times> js_error option"

fun is_respond :: "effect \<Rightarrow> bool" where
  "is_respond (Respond st b) = True"
| "is_respond e = False"

fun is_log :: "effect \<Rightarrow> bool" where
  "is_log (Log l) = True"
| "is_log e = False"

text \<open>\<^verbatim>\<open>res.headersSent\<close>: a response has been sent.\<close>

definition headersSent :: "effect list \<Rightarrow> bool" where
  "headersSent effs = list_ex is_respond effs"

text \<open>The acknowledgment document, \<^verbatim>\<open><?xml version="1.0" encoding="UTF-8"?><Response></Response>\<close>.\<close>

definition ack_xml :: string where
  "ack_xml =
     ''<?xml version='' @ [CHR 0x22] @ ''1.0'' @ [CHR 0x22] @ '' encoding='' @ [CHR 0x22] @
     ''UTF-8'' @ [CHR 0x22] @ ''?><Response></Response>''"

subsection \<open>The handler of \<^verbatim>\<open>POST /twilio-webhook\<close>\<close>

text \<open>A destructuring default, \<^verbatim>\<open>{Body: body = ''}\<close>: it replaces \<^verbatim>\<open>undefined\<close> only.\<close>

definition default_to :: "jsval \<Rightarrow> jsval \<Rightarrow> jsval" where
  "default_to v d = (if v = JUndefined then d else v)"

text \<open>
  The code after the loop and inside the outer \<^verbatim>\<open>try\<close>: the acknowledgment, the
  payload, the forward call and the inner \<^verbatim>\<open>try\<close>/\<^verbatim>\<open>catch\<close> around it.
  \<^verbatim>\<open>
  res.status(200).send('<?xml version="1.0" encoding="UTF-8"?><Response></Response>');
  const payload = { from, to, body, mediaUrls, messageId,
                    receivedAt: new Date().toISOString() };
  console.log(`Forwarding to main app: ${MAIN_APP_URL}/api/twilio/webhook`);
  try {
    const forwardResponse = await axios.post(`${MAIN_APP_URL}/api/twilio/webhook`, payload,
      { headers: { 'Content-Type': 'application/json',
                   'Authorization': `Bearer ${SUPABASE_ANON_KEY}` },
        timeout: 30000 });
    const processingTime = Date.now() - startTime;
    console.log(`Successfully forwarded webhook in ${processingTime}ms`);
    if (DEBUG_MODE) { console.log('Forward response:', forwardResponse.data); }
  } catch (forwardError) {
    const processingTime = Date.now() - startTime;
    console.error(`Failed to forward webhook after ${processingTime}ms:`, forwardError.message);
    if (forwardError.response) {
      console.error('Response status:', forwardError.response.status);
      console.error('Response data:', forwardError.response.data);
    }
  }
  \<close>
\<close>

definition make_payload ::
  "jsval \<Rightarrow> jsval \<Rightarrow> jsval \<Rightarrow> jsval list \<Rightarrow> jsval \<Rightarrow> string \<Rightarrow> jsval" where
  "make_payload from to body mediaUrls messageId receivedAt =
     JObj [(''from'', from), (''to'', to), (''body'', body), (''mediaUrls'', JArr mediaUrls),
           (''messageId'', messageId), (''receivedAt'', JStr receivedAt)]"

definition make_call :: "config \<Rightarrow> jsval \<Rightarrow> forward_call" where
  "make_call cfg p =
     \<lparr>url = MAIN_APP_URL cfg @ ''/api/twilio/webhook'',
      payload = p,
      call_headers = [(''Content-Type'', ''application/json''),
                      (''Authorization'', ''Bearer '' @ SUPABASE_ANON_KEY cfg)],
      timeout = 30000\<rparr>"

definition after_forward :: "config \<Rightarrow> world \<Rightarrow> run" where
  "after_forward cfg w =
     (case outcome w of
        Fulfilled data \<Rightarrow>
          ([Log (Forwarded (end_ms w - start_ms w))] @
           (if DEBUG_MODE cfg then [Log (ForwardResponse data)] else []),
           None)
      | Rejected forwardError \<Rightarrow>
          (case get_prop forwardError ''message'' of
             Inl e \<Rightarrow> ([], Some e)
           | Inr message \<Rightarrow>
               ([Log (ForwardFailed (end_ms w - start_ms w) message)] @
                (if truthy (own_prop forwardError ''response'')
                 then [Log (ResponseStatus (own_prop (own_prop forwardError ''response'') ''status'')),
                       Log (ResponseData (own_prop (own_prop forwardError ''response'') ''data''))]
                 else []),
                None)))"

definition respond_and_forward ::
  "config \<Rightarrow> world \<Rightarrow> jsval \<Rightarrow> jsval \<Rightarrow> jsval \<Rightarrow> jsval list \<Rightarrow> jsval \<Rightarrow> run" where
  "respond_and_forward cfg w from to body mediaUrls messageId =
     ([Respond 200 (Text ack_xml),
       Log (Forwarding (MAIN_APP_URL cfg @ ''/api/twilio/webhook'')),
       Forward (make_call cfg (make_payload from to body mediaUrls messageId (iso_now w)))]
      @ fst (after_forward cfg w),
      snd (after_forward cfg w))"

text \<open>
  The body of the outer \<^verbatim>\<open>try\<close>.
  \<^verbatim>\<open>
  const startTime = Date.now();
  const { From: from, To: to, Body: body = '', MessageSid: messageId,
          NumMedia: numMedia = '0' } = req.body;
  console.log(`Received webhook from ${from} to ${to}`);
  \<close>
  followed by the loop and the code above. Destructuring \<^verbatim>\<open>undefined\<close> or \<^verbatim>\<open>null\<close>
  throws; so do the template literal and \<^verbatim>\<open>parseInt\<close> when \<^verbatim>\<open>ToString\<close> does.
\<close>

definition webhook_try :: "config \<Rightarrow> request \<Rightarrow> world \<Rightarrow> run option" where
  "webhook_try cfg req w =
     (if req_body req = JUndefined \<or> req_body req = JNull then Some ([], Some TypeError)
      else
        (case to_string (own_prop (req_body req) ''From'') of
           Inl e \<Rightarrow> Some ([], Some e)
         | Inr from_text \<Rightarrow>
        (case to_string (own_prop (req_body req) ''To'') of
           Inl e \<Rightarrow> Some ([], Some e)
         | Inr to_text \<Rightarrow>
        (case parseInt (default_to (own_prop (req_body req) ''NumMedia'') (JStr ''0'')) of
           Inl e \<Rightarrow> Some ([Log (Received from_text to_text)], Some e)
         | Inr mediaCount \<Rightarrow>
        (case media_loop (req_body req) mediaCount 0 [] of
           None \<Rightarrow> None
         | Some mediaUrls \<Rightarrow>
             Some
               (Log (Received from_text to_text) #
                fst (respond_and_forward cfg w
                       (own_prop (req_body req) ''From'')
                       (own_prop (req_body req) ''To'')
                       (default_to (own_prop (req_body req) ''Body'') (JStr []))
                       mediaUrls
                       (own_prop (req_body req) ''MessageSid'')),
                snd (respond_and_forward cfg w
                       (own_prop (req_body req) ''From'')
                       (own_prop (req_body req) ''To'')
                       (default_to (own_prop (req_body req) ''Body'') (JStr []))
                       mediaUrls
                       (own_prop (req_body req) ''MessageSid''))))))))"

text \<open>
  The outer \<^verbatim>\<open>catch\<close>.
  \<^verbatim>\<open>
  } catch (error) {
    console.error('Error processing webhook:', error);
    if (!res.headersSent) {
      res.status(500).send('<?xml version="1.0" encoding="UTF-8"?><Response></Response>');
    }
  }
  \<close>
\<close>

fun webhook_catch :: "run \<Rightarrow> run" where
  "webhook_catch (effs, None) = (effs, None)"
| "webhook_catch (effs, Some error) =
     (effs @ [Log (WebhookError error)] @
      (if \<not> headersSent effs then [Respond 500 (Text ack_xml)] else []),
      None)"

definition twilio_webhook :: "config \<Rightarrow> request \<Rightarrow> world \<Rightarrow> run option" where
  "twilio_webhook cfg req w = map_option webhook_catch (webhook_try cfg req w)"

subsection \<open>The other layers of the application\<close>

text \<open>\<^verbatim>\<open>app.get('/health', ...)\<close>.\<close>

definition health :: "config \<Rightarrow> world \<Rightarrow> run" where
  "health cfg w =
     ([Respond 200
         (Json (JObj [(''status'', JStr ''healthy''),
                      (''timestamp'', JStr (iso_now w)),
                      (''mainAppUrl'', JStr (MAIN_APP_URL cfg))]))],
      None)"

text \<open>\<^verbatim>\<open>app.use('*', ...)\<close>, the handler of the catch-all.\<close>

definition not_found :: run where
  "not_found =
     ([Respond 404
         (Json (JObj [(''error'', JStr ''Route not found''),
                      (''availableRoutes'', JArr [JStr ''/health'', JStr ''/twilio-webhook''])]))],
      None)"

text \<open>\<^verbatim>\<open>app.use((error, req, res, next) => ...)\<close>, the global error handler.\<close>

definition error_handler :: "config \<Rightarrow> jsval \<Rightarrow> run" where
  "error_handler cfg error =
     ([Log (GlobalError error),
       Respond 500
         (Json (JObj [(''error'', JStr ''Internal server error''),
                      (''message'',
                       if DEBUG_MODE cfg then own_prop error ''message''
                       else JStr ''Something went wrong'')]))],
      None)"

text \<open>The debug logging middleware, registered only when \<^verbatim>\<open>DEBUG_MODE\<close> is set.\<close>

definition debug_logging :: "config \<Rightarrow> request \<Rightarrow> world \<Rightarrow> effect list" where
  "debug_logging cfg req w =
     (if DEBUG_MODE cfg
      then [Log (RequestLine (logged_at w) (req_method req) (req_path req)),
            Log (RequestHeaders (req_headers req)),
            Log (RequestBody (req_body req))]
      else [])"

text \<open>
  How Express matches a route path with its default settings (routing is not case
  sensitive and not strict): the path equals the pattern up to the case of ASCII
  letters, with at most one trailing slash added. A route registered with
  \<^verbatim>\<open>app.get\<close> also serves \<^verbatim>\<open>HEAD\<close>.
\<close>

definition lower :: "char \<Rightarrow> char" where
  "lower c =
     (case map_of (zip ''ABCDEFGHIJKLMNOPQRSTUVWXYZ'' ''abcdefghijklmnopqrstuvwxyz'') c of
        Some l \<Rightarrow> l
      | None \<Rightarrow> c)"

definition route_matches :: "string \<Rightarrow> string \<Rightarrow> bool" where
  "route_matches pattern p = (map lower p = pattern \<or> map lower p = pattern @ ''/'')"

definition is_health :: "request \<Rightarrow> bool" where
  "is_health req =
     ((req_method req = ''GET'' \<or> req_method req = ''HEAD'') \<and>
      route_matches ''/health'' (req_path req))"

definition is_webhook :: "request \<Rightarrow> bool" where
  "is_webhook req =
     (req_method req = ''POST'' \<and> route_matches ''/twilio-webhook'' (req_path req))"

definition prepend :: "effect list \<Rightarrow> run \<Rightarrow> run" where
  "prepend effs r = (effs @ fst r, snd r)"

text \<open>
  The layer of the catch-all is mounted on the path \<^verbatim>\<open>*\<close>. Express matches it with
  every path and takes the whole path as the layer's parameter, which it decodes
  with \<^verbatim>\<open>decodeURIComponent\<close>; when that throws, the layer raises the error
  \<^verbatim>\<open>Failed to decode param\<close> instead of running its handler. The two routes have no
  parameter and decode nothing.

  \<^verbatim>\<open>decodeURIComponent\<close> throws on a \<^verbatim>\<open>%\<close> that is not followed by two hexadecimal
  digits, and on escaped octets from \<^verbatim>\<open>0x80\<close> up that are not the UTF-8
  encoding of a code point, each octet escaped. \<open>decodes octets pending path\<close> reads
  the path from the left: \<open>octets\<close> are the octets of the sequence being read and
  \<open>pending\<close> is the number of octets it still needs.
\<close>

definition hex_val :: "char \<Rightarrow> nat option" where
  "hex_val c =
     map_of (zip ''0123456789abcdefABCDEF''
               [0, 1, 2, 3, 4, 5, 6, 7, 8, 9, 10, 11, 12, 13, 14, 15, 10, 11, 12, 13, 14, 15]) c"

text \<open>The number of leading one bits of an octet; 5 stands for five and more.\<close>

definition leading_ones :: "nat \<Rightarrow> nat" where
  "leading_ones b =
     (if b < 128 then 0 else if b < 192 then 1 else if b < 224 then 2
      else if b < 240 then 3 else if b < 248 then 4 else 5)"

definition continuation :: "nat \<Rightarrow> bool" where
  "continuation b = (128 \<le> b \<and> b \<le> 191)"

text \<open>The well-formed UTF-8 sequences of two, three and four octets.\<close>

fun valid_utf8 :: "nat list \<Rightarrow> bool" where
  "valid_utf8 [a, b] = (194 \<le> a \<and> a \<le> 223 \<and> continuation b)"
| "valid_utf8 [a, b, c] =
     ((a = 224 \<and> 160 \<le> b \<and> b \<le> 191 \<or>
       225 \<le> a \<and> a \<le> 236 \<and> continuation b \<or>
       a = 237 \<and> 128 \<le> b \<and> b \<le> 159 \<or>
       238 \<le> a \<and> a \<le> 239 \<and> continuation b) \<and>
      continuation c)"
| "valid_utf8 [a, b, c, d] =
     ((a = 240 \<and> 144 \<le> b \<and> b \<le> 191 \<or>
       241 \<le> a \<and> a \<le> 243 \<and> continuation b \<or>
       a = 244 \<and> 128 \<le> b \<and> b \<le> 143) \<and>
      continuation c \<and> continuation d)"
| "valid_utf8 octets = False"

fun decodes :: "nat list \<Rightarrow> nat \<Rightarrow> string \<Rightarrow> bool" where
  "decodes octets pending [] = (pending = 0)"
| "decodes octets pending (c # s) =
     (if c = CHR ''%'' then
        (case s of
           h1 # h2 # rest \<Rightarrow>
             (case (hex_val h1, hex_val h2) of
                (Some x, Some y) \<Rightarrow>
                  (if pending = 0 then
                     (if leading_ones (16 * x + y) = 0 then decodes [] 0 rest
                      else if leading_ones (16 * x + y) = 1 \<or> leading_ones (16 * x + y) > 4
                        then False
                      else decodes [16 * x + y] (leading_ones (16 * x + y) - 1) rest)
                   else if pending = 1 then
                     valid_utf8 (octets @ [16 * x + y]) \<and> decodes [] 0 rest
                   else decodes (octets @ [16 * x + y]) (pending - 1) rest)
              | _ \<Rightarrow> False)
         | _ \<Rightarrow> False)
      else pending = 0 \<and> decodes [] 0 s)"

text \<open>The error the layer raises: a \<^verbatim>\<open>URIError\<close> with status 400 and this message.\<close>

definition decode_error :: "string \<Rightarrow> jsval" where
  "decode_error p =
     JObj [(''message'', JStr (''Failed to decode param '' @ [CHR 0x27] @ p @ [CHR 0x27])),
           (''status'', JNum ''400''), (''statusCode'', JNum ''400'')]"

text \<open>
  The layer of the catch-all: its handler when the path decodes, the error otherwise,
  which goes to the global error handler, the only layer below.
\<close>

definition catch_all :: "config \<Rightarrow> request \<Rightarrow> run" where
  "catch_all cfg req =
     (if decodes [] 0 (req_path req) then not_found
      else error_handler cfg (decode_error (req_path req)))"

text \<open>
  \<^verbatim>\<open>app.use(cors())\<close>: with its default options \<^verbatim>\<open>cors\<close> answers every \<^verbatim>\<open>OPTIONS\<close>
  request itself, with status 204 and no body, and passes every other request on.
\<close>

definition preflight :: run where
  "preflight = ([Respond 204 (Text [])], None)"

text \<open>
  A request arrives with the result of the body parsers, which come after \<^verbatim>\<open>helmet\<close>
  and \<^verbatim>\<open>cors\<close>: they pass the request on with its parsed body, or raise an error
  (\<^verbatim>\<open>next(err)\<close>, on a body they cannot read), which skips every layer but the global
  error handler. The layers in the order \<^verbatim>\<open>server.js\<close> registers them: \<^verbatim>\<open>cors\<close>, the
  body parsers, the debug logging, the two routes, the catch-all, the error handler.
\<close>

datatype arrival = Passed request | Raised request jsval

fun request_of :: "arrival \<Rightarrow> request" where
  "request_of (Passed req) = req"
| "request_of (Raised req error) = req"

fun after_parsers :: "config \<Rightarrow> arrival \<Rightarrow> world \<Rightarrow> run option" where
  "after_parsers cfg (Raised req error) w = Some (error_handler cfg error)"
| "after_parsers cfg (Passed req) w =
     map_option (prepend (debug_logging cfg req w))
       (if is_health req then Some (health cfg w)
        else if is_webhook req then twilio_webhook cfg req w
        else Some (catch_all cfg req))"

definition app :: "config \<Rightarrow> arrival \<Rightarrow> world \<Rightarrow> run option" where
  "app cfg a w =
     (if req_method (request_of a) = ''OPTIONS'' then Some preflight
      else after_parsers cfg a w)"

subsection \<open>Start-up\<close>

text \<open>
  \<^verbatim>\<open>
  const requiredEnvVars = ['MAIN_APP_URL', 'SUPABASE_ANON_KEY'];
  const missingEnvVars = requiredEnvVars.filter(varName => !process.env[varName]);
  if (missingEnvVars.length > 0) {
    console.error('Missing required environment variables:', missingEnvVars.join(', '));
    process.exit(1);
  }
  const MAIN_APP_URL = process.env.MAIN_APP_URL;
  const SUPABASE_ANON_KEY = process.env.SUPABASE_ANON_KEY;
  const DEBUG_MODE = process.env.DEBUG_MODE === 'true';
  \<close>
  The environment maps a name to its text, when the variable is set.
\<close>

type_synonym environment = "string \<rightharpoonup> string"

definition env_value :: "environment \<Rightarrow> string \<Rightarrow> jsval" where
  "env_value env name = (case env name of None \<Rightarrow> JUndefined | Some s \<Rightarrow> JStr s)"

definition requiredEnvVars :: "string list" where
  "requiredEnvVars = [''MAIN_APP_URL'', ''SUPABASE_ANON_KEY'']"

definition missingEnvVars :: "environment \<Rightarrow> string list" where
  "missingEnvVars env = filter (\<lambda>varName. \<not> truthy (env_value env varName)) requiredEnvVars"

datatype startup = Exit nat "string list" | Serving config

text \<open>A variable in a template literal; the text \<^verbatim>\<open>undefined\<close> when it is not set.\<close>

definition env_text :: "environment \<Rightarrow> string \<Rightarrow> string" where
  "env_text env name = (case env name of None \<Rightarrow> ''undefined'' | Some s \<Rightarrow> s)"

definition start :: "environment \<Rightarrow> startup" where
  "start env =
     (if length (missingEnvVars env) > 0 then Exit 1 (missingEnvVars env)
      else Serving
             \<lparr>MAIN_APP_URL = env_text env ''MAIN_APP_URL'',
              SUPABASE_ANON_KEY = env_text env ''SUPABASE_ANON_KEY'',
              DEBUG_MODE = (env_value env ''DEBUG_MODE'' = JStr ''true'')\<rparr>)"

subsection \<open>Observations on a run\<close>

text \<open>The responses sent and the forward calls made, in order.\<close>

fun responses :: "effect list \<Rightarrow> (nat \<times> resp_body) list" where
  "responses [] = []"
| "responses (Respond st b # effs) = (st, b) # responses effs"
| "responses (e # effs) = responses effs"

fun forwards :: "effect list \<Rightarrow> forward_call list" where
  "forwards [] = []"
| "forwards (Forward c # effs) = c # forwards effs"
| "forwards (e # effs) = forwards effs"

text \<open>
  The members \<^verbatim>\<open>JSON.stringify\<close> writes for an object, which is how \<^verbatim>\<open>axios\<close>
  serialises the payload: a property whose value is \<^verbatim>\<open>undefined\<close> is left out.
\<close>

fun json_members :: "jsval \<Rightarrow> (string \<times> jsval) list" where
  "json_members (JObj kvs) = filter (\<lambda>kv. snd kv \<noteq> JUndefined) kvs"
| "json_members v = []"

text \<open>
  A request is well formed for the webhook handler when nothing in it stops the
  handler before the acknowledgment: the body is there, \<^verbatim>\<open>From\<close>, \<^verbatim>\<open>To\<close> and
  \<^verbatim>\<open>NumMedia\<close> convert to text, and the count read from \<^verbatim>\<open>NumMedia\<close> is one the loop
  counter can reach (the digits read give at most \<open>2\<^sup>5\<^sup>3 + 1\<close>). A request whose
  fields are strings, as a form-encoded callback has them, with a count in that
  range, is well formed (\<open>form_request_wellformed\<close> below), and the well-formed
  requests are exactly those the handler acknowledges with status 200
  (\<open>acknowledged_iff_wellformed\<close>).
\<close>

definition converts :: "jsval \<Rightarrow> bool" where
  "converts v = (case to_string v of Inl e \<Rightarrow> False | Inr s \<Rightarrow> True)"

definition reachable_count :: "jsval \<Rightarrow> bool" where
  "reachable_count v = (case parseInt v of Inl e \<Rightarrow> False | Inr c \<Rightarrow> c \<noteq> Beyond)"

definition wellformed :: "request \<Rightarrow> bool" where
  "wellformed req =
     (req_body req \<noteq> JUndefined \<and> req_body req \<noteq> JNull \<and>
      converts (own_prop (req_body req) ''From'') \<and>
      converts (own_prop (req_body req) ''To'') \<and>
      reachable_count (default_to (own_prop (req_body req) ''NumMedia'') (JStr ''0'')))"

subsection \<open>Terms of the specification\<close>

text \<open>
  The specification speaks of a \<^emph>\<open>numeric\<close> attachment count, an integer. Following
  its words, a text is numeric when, after leading white space and an optional sign,
  it is a non-empty run of decimal digits and nothing else.
\<close>

definition numeric_text :: "string \<Rightarrow> bool" where
  "numeric_text s = (unsigned (trim_start s) \<noteq> [] \<and> list_all is_digit (unsigned (trim_start s)))"

text \<open>What \<^verbatim>\<open>parseInt\<close> asks of a text: a decimal digit after the white space and the sign.\<close>

definition leading_digit :: "string \<Rightarrow> bool" where
  "leading_digit s =
     (case unsigned (trim_start s) of [] \<Rightarrow> False | c # cs \<Rightarrow> is_digit c)"

text \<open>
  The specification speaks of a configuration value that is \<^emph>\<open>missing from the
  environment\<close> or \<^emph>\<open>present\<close>: the variable is not set, or it is set.
\<close>

definition present :: "environment \<Rightarrow> string \<Rightarrow> bool" where
  "present env name = (env name \<noteq> None)"

text \<open>A run without its log lines: the responses and forward calls, and how it ended.\<close>

definition quiet :: "run \<Rightarrow> run" where
  "quiet r = (filter (\<lambda>e. \<not> is_log e) (fst r), snd r)"

section \<open>Properties\<close>

subsection \<open>The attachment loop\<close>

lemma media_loop_NaN: "media_loop b NaN i acc = Some acc"
  by (subst media_loop.simps) simp

lemma media_loop_Exact:
  "n \<le> 2 ^ 53 \<Longrightarrow>
   media_loop b (Exact n) i acc =
     Some (acc @ filter truthy (map (\<lambda>j. own_prop b (media_key j)) [i..<nat n]))"
proof (induction "nat n - i" arbitrary: i acc)
  case 0
  then have "\<not> int i < n" by linarith
  moreover from 0 have "[i..<nat n] = []" by simp
  ultimately show ?case by (subst media_loop.simps) simp
next
  case (Suc k)
  then have lt: "int i < n" by linarith
  with Suc.prems have "int i < int (2 ^ 53)" by simp
  then have "i < 2 ^ 53" by (simp only: of_nat_less_iff)
  then have inc: "incr i = Suc i" by (simp add: incr_def)
  from Suc have k: "k = nat n - Suc i" by linarith
  from lt have upt: "[i..<nat n] = i # [Suc i..<nat n]"
    by (simp add: upt_conv_Cons)
  show ?case
    by (subst media_loop.simps) (simp add: lt inc upt Suc.hyps(1) [OF k Suc.prems])
qed

lemma media_loop_returns:
  assumes "media_loop b c i acc = Some ys"
  shows "c \<noteq> Beyond"
proof (induction b c i acc ys rule: media_loop.raw_induct)
  case (1 f b c i acc ys)
  show ?case
  proof
    assume c: "c = Beyond"
    let ?acc = "if truthy (own_prop b (media_key i)) then acc @ [own_prop b (media_key i)] else acc"
    from "1.hyps" c have "f b Beyond (incr i) ?acc = Some ys"
      by simp
    then have "Beyond \<noteq> Beyond" by (rule "1.IH")
    then show False by simp
  qed
qed (rule assms)

lemma media_loop_Beyond: "media_loop b Beyond i acc = None"
  using media_loop_returns [of b Beyond i acc] by (cases "media_loop b Beyond i acc") auto

lemma to_count_Exact: "to_count r = Exact n \<Longrightarrow> n \<le> 2 ^ 53"
  by (auto simp: to_count_def split: option.splits if_splits)

lemma parseInt_Exact: "parseInt v = Inr (Exact n) \<Longrightarrow> n \<le> 2 ^ 53"
  by (auto simp: parseInt_def split: sum.splits dest: to_count_Exact)

lemmas eval_text = media_key_def nat_text.simps digit_char_def

lemmas eval_parse = parseInt_def parse_digits_def unsigned_def to_count_def default_to_def
  is_digit_def digits_val_def digit_val_def ws1_def ws2_def ws3_def

text \<open>
  Claim C2. Let \<open>N\<close> be the attachment count \<^verbatim>\<open>parseInt\<close> reads from \<^verbatim>\<open>NumMedia\<close> (with
  its default \<^verbatim>\<open>'0'\<close>), a count the loop counter reaches, so at most \<open>2\<^sup>5\<^sup>3\<close>.
  Whatever \<^verbatim>\<open>MediaUrl\<close> fields the body holds, the loop ends and
  the list it builds is the list of the truthy values among \<^verbatim>\<open>MediaUrl0\<close> ..
  \<^verbatim>\<open>MediaUrl(N-1)\<close>, in ascending order of the index: an absent field (\<^verbatim>\<open>undefined\<close>)
  and a falsy one (the empty string) contribute nothing. The list has at most \<open>N\<close>
  entries, and a body that agrees with this one on the indices below \<open>N\<close> gives the
  same list, so fields at indices from \<open>N\<close> on are ignored.
\<close>

theorem attachment_urls:
  assumes "parseInt (default_to (own_prop reqBody ''NumMedia'') (JStr ''0'')) = Inr (Exact N)"
  shows "media_loop reqBody (Exact N) 0 [] =
           Some (filter truthy (map (\<lambda>i. own_prop reqBody (media_key i)) [0..<nat N])) \<and>
         length (filter truthy (map (\<lambda>i. own_prop reqBody (media_key i)) [0..<nat N])) \<le> nat N \<and>
         (\<forall>other. (\<forall>i < nat N. own_prop other (media_key i) = own_prop reqBody (media_key i)) \<longrightarrow>
            media_loop other (Exact N) 0 [] = media_loop reqBody (Exact N) 0 [])"
proof -
  from assms have N: "N \<le> 2 ^ 53" by (rule parseInt_Exact)
  have len: "length (filter truthy (map (\<lambda>i. own_prop reqBody (media_key i)) [0..<nat N])) \<le> nat N"
    using length_filter_le [of truthy "map (\<lambda>i. own_prop reqBody (media_key i)) [0..<nat N]"]
    by simp
  have same: "media_loop other (Exact N) 0 [] = media_loop reqBody (Exact N) 0 []"
    if "\<forall>i < nat N. own_prop other (media_key i) = own_prop reqBody (media_key i)" for other
  proof -
    from that have "map (\<lambda>i. own_prop other (media_key i)) [0..<nat N] =
                    map (\<lambda>i. own_prop reqBody (media_key i)) [0..<nat N]"
      by simp
    then show ?thesis by (simp only: media_loop_Exact [OF N])
  qed
  have run: "media_loop reqBody (Exact N) 0 [] =
               Some (filter truthy (map (\<lambda>i. own_prop reqBody (media_key i)) [0..<nat N]))"
    using media_loop_Exact [OF N, of reqBody 0 "[]"] by simp
  from same have "\<forall>other. (\<forall>i < nat N. own_prop other (media_key i) = own_prop reqBody (media_key i)) \<longrightarrow>
            media_loop other (Exact N) 0 [] = media_loop reqBody (Exact N) 0 []"
    by blast
  with run len show ?thesis by blast
qed

text \<open>
  A body with \<^verbatim>\<open>NumMedia = "3"\<close>, an empty \<^verbatim>\<open>MediaUrl1\<close> and a \<^verbatim>\<open>MediaUrl3\<close> beyond the
  count: the list holds \<^verbatim>\<open>MediaUrl0\<close> and \<^verbatim>\<open>MediaUrl2\<close>.
\<close>

theorem attachment_urls_witness:
  "parseInt (default_to (own_prop
      (JObj [(''NumMedia'', JStr ''3''), (''MediaUrl0'', JStr ''a''), (''MediaUrl1'', JStr []),
             (''MediaUrl2'', JStr ''c''), (''MediaUrl3'', JStr ''d'')]) ''NumMedia'') (JStr ''0''))
     = Inr (Exact 3) \<and>
   media_loop
      (JObj [(''NumMedia'', JStr ''3''), (''MediaUrl0'', JStr ''a''), (''MediaUrl1'', JStr []),
             (''MediaUrl2'', JStr ''c''), (''MediaUrl3'', JStr ''d'')]) (Exact 3) 0 []
     = Some [JStr ''a'', JStr ''c'']"
proof -
  let ?b = "JObj [(''NumMedia'', JStr ''3''), (''MediaUrl0'', JStr ''a''), (''MediaUrl1'', JStr []),
             (''MediaUrl2'', JStr ''c''), (''MediaUrl3'', JStr ''d'')]"
  have p: "parseInt (default_to (own_prop ?b ''NumMedia'') (JStr ''0'')) = Inr (Exact 3)"
    by (simp add: eval_parse)
  have u: "[0..<nat 3] = [0, 1, 2]" by (simp add: upt_rec)
  from attachment_urls [OF p] have
    "media_loop ?b (Exact 3) 0 [] =
       Some (filter truthy (map (\<lambda>i. own_prop ?b (media_key i)) [0..<nat 3]))"
    by (rule conjunct1)
  then have "media_loop ?b (Exact 3) 0 [] = Some [JStr ''a'', JStr ''c'']"
    unfolding u by (simp add: eval_text)
  with p show ?thesis by (rule conjI)
qed

lemma media_loop_reachable:
  assumes "parseInt v = Inr c" and "c \<noteq> Beyond"
  shows "\<exists>mediaUrls. media_loop b c 0 [] = Some mediaUrls"
proof (cases c)
  case NaN
  then show ?thesis by (simp add: media_loop_NaN)
next
  case (Exact n)
  with assms(1) have "parseInt v = Inr (Exact n)" by simp
  then have "n \<le> 2 ^ 53" by (rule parseInt_Exact)
  then have "media_loop b (Exact n) 0 [] =
      Some ([] @ filter truthy (map (\<lambda>j. own_prop b (media_key j)) [0..<nat n]))"
    by (rule media_loop_Exact)
  with Exact show ?thesis by blast
next
  case Beyond
  with assms(2) show ?thesis by simp
qed

lemma is_log_after_forward: "list_all is_log (fst (after_forward cfg w))"
  by (simp add: after_forward_def split: forward_outcome.splits sum.splits)

lemma webhook_catch_sent:
  "headersSent effs \<Longrightarrow>
   webhook_catch (effs, x) =
     (effs @ (case x of None \<Rightarrow> [] | Some e \<Rightarrow> [Log (WebhookError e)]), None)"
  by (cases x) simp_all

lemma twilio_webhook_wellformed:
  assumes "wellformed req"
  shows "\<exists>from_text to_text c mediaUrls rest.
     to_string (own_prop (req_body req) ''From'') = Inr from_text \<and>
     to_string (own_prop (req_body req) ''To'') = Inr to_text \<and>
     parseInt (default_to (own_prop (req_body req) ''NumMedia'') (JStr ''0'')) = Inr c \<and>
     media_loop (req_body req) c 0 [] = Some mediaUrls \<and>
     list_all is_log rest \<and>
     twilio_webhook cfg req w =
       Some ([Log (Received from_text to_text),
              Respond 200 (Text ack_xml),
              Log (Forwarding (MAIN_APP_URL cfg @ ''/api/twilio/webhook'')),
              Forward (make_call cfg
                (make_payload (own_prop (req_body req) ''From'') (own_prop (req_body req) ''To'')
                   (default_to (own_prop (req_body req) ''Body'') (JStr []))
                   mediaUrls (own_prop (req_body req) ''MessageSid'') (iso_now w)))] @ rest,
             None)"
proof -
  from assms obtain from_text to_text c where
    body: "req_body req \<noteq> JUndefined" "req_body req \<noteq> JNull"
    and f: "to_string (own_prop (req_body req) ''From'') = Inr from_text"
    and t: "to_string (own_prop (req_body req) ''To'') = Inr to_text"
    and c: "parseInt (default_to (own_prop (req_body req) ''NumMedia'') (JStr ''0'')) = Inr c"
    and r: "c \<noteq> Beyond"
    by (auto simp: wellformed_def converts_def reachable_count_def split: sum.splits)
  from media_loop_reachable [OF c r] obtain mediaUrls where
    m: "media_loop (req_body req) c 0 [] = Some mediaUrls" by blast
  let ?rest = "fst (after_forward cfg w) @
     (case snd (after_forward cfg w) of None \<Rightarrow> [] | Some e \<Rightarrow> [Log (WebhookError e)])"
  have "list_all is_log ?rest"
    using is_log_after_forward [of cfg w] by (simp split: option.splits)
  moreover have "twilio_webhook cfg req w =
       Some ([Log (Received from_text to_text),
              Respond 200 (Text ack_xml),
              Log (Forwarding (MAIN_APP_URL cfg @ ''/api/twilio/webhook'')),
              Forward (make_call cfg
                (make_payload (own_prop (req_body req) ''From'') (own_prop (req_body req) ''To'')
                   (default_to (own_prop (req_body req) ''Body'') (JStr []))
                   mediaUrls (own_prop (req_body req) ''MessageSid'') (iso_now w)))] @ ?rest,
             None)"
    using body f t c m
    by (simp add: twilio_webhook_def webhook_try_def respond_and_forward_def
        webhook_catch_sent headersSent_def)
  ultimately show ?thesis using f t c m by blast
qed

lemma responses_logs: "list_all is_log effs \<Longrightarrow> responses effs = []"
proof (induction effs)
  case Nil
  then show ?case by simp
next
  case (Cons e effs)
  then show ?case by (cases e) simp_all
qed

lemma forwards_logs: "list_all is_log effs \<Longrightarrow> forwards effs = []"
proof (induction effs)
  case Nil
  then show ?case by simp
next
  case (Cons e effs)
  then show ?case by (cases e) simp_all
qed

lemmas eval_handler = twilio_webhook_def webhook_try_def respond_and_forward_def
  after_forward_def get_prop_def make_call_def make_payload_def headersSent_def

lemmas eval_wellformed = wellformed_def converts_def reachable_count_def

text \<open>
  Claim C1. For every well-formed request to the webhook handler and every outcome of
  the forward call (it is fulfilled; it is rejected by a network error or a timeout,
  which carry no response; it is rejected with the response of a status outside 2xx;
  it is rejected with any other value), the handler returns, and the one response it
  has sent is status 200 with the body
  \<^verbatim>\<open><?xml version="1.0" encoding="UTF-8"?><Response></Response>\<close>, written out below
  with \<open>CHR 0x22\<close> for the double quote.
\<close>

theorem webhook_acknowledges:
  assumes "wellformed req"
  shows "\<exists>effs. twilio_webhook cfg req (w\<lparr>outcome := forward_result\<rparr>) = Some (effs, None) \<and>
           responses effs =
             [(200, Text (''<?xml version='' @ [CHR 0x22] @ ''1.0'' @ [CHR 0x22] @
                          '' encoding='' @ [CHR 0x22] @ ''UTF-8'' @ [CHR 0x22] @
                          ''?><Response></Response>''))]"
proof -
  from twilio_webhook_wellformed [OF assms, of cfg "w\<lparr>outcome := forward_result\<rparr>"]
  obtain effs rest where
    "twilio_webhook cfg req (w\<lparr>outcome := forward_result\<rparr>) = Some (effs, None)"
    and "responses effs = responses ([Respond 200 (Text ack_xml)] @ rest)"
    and "list_all is_log rest"
    by auto
  then show ?thesis by (auto simp: responses_logs ack_xml_def)
qed

text \<open>A form-encoded callback with one attachment, forwarded to a downstream that times out.\<close>

theorem webhook_acknowledges_witness:
  "wellformed
     \<lparr>req_method = ''POST'', req_path = ''/twilio-webhook'', req_headers = [],
      req_body = JObj [(''From'', JStr ''+1A''), (''To'', JStr ''+1B''), (''Body'', JStr ''hi''),
                       (''MessageSid'', JStr ''SM1''), (''NumMedia'', JStr ''1''),
                       (''MediaUrl0'', JStr ''http://x/1.jpg'')]\<rparr> \<and>
   (\<exists>effs.
      twilio_webhook
        \<lparr>MAIN_APP_URL = ''http://main'', SUPABASE_ANON_KEY = ''key'', DEBUG_MODE = False\<rparr>
        \<lparr>req_method = ''POST'', req_path = ''/twilio-webhook'', req_headers = [],
         req_body = JObj [(''From'', JStr ''+1A''), (''To'', JStr ''+1B''), (''Body'', JStr ''hi''),
                          (''MessageSid'', JStr ''SM1''), (''NumMedia'', JStr ''1''),
                          (''MediaUrl0'', JStr ''http://x/1.jpg'')]\<rparr>
        \<lparr>logged_at = ''t0'', start_ms = 0, iso_now = ''t1'',
         outcome = Rejected (JObj [(''message'', JStr ''timeout of 30000ms exceeded'')]),
         end_ms = 30001\<rparr>
        = Some (effs, None) \<and>
      responses effs =
        [(200, Text (''<?xml version='' @ [CHR 0x22] @ ''1.0'' @ [CHR 0x22] @
                     '' encoding='' @ [CHR 0x22] @ ''UTF-8'' @ [CHR 0x22] @
                     ''?><Response></Response>''))])"
proof -
  let ?req = "\<lparr>req_method = ''POST'', req_path = ''/twilio-webhook'', req_headers = [],
      req_body = JObj [(''From'', JStr ''+1A''), (''To'', JStr ''+1B''), (''Body'', JStr ''hi''),
                       (''MessageSid'', JStr ''SM1''), (''NumMedia'', JStr ''1''),
                       (''MediaUrl0'', JStr ''http://x/1.jpg'')]\<rparr>"
  have wf: "wellformed ?req"
    by (simp add: eval_wellformed eval_parse)
  from webhook_acknowledges [OF wf,
      where cfg = "\<lparr>MAIN_APP_URL = ''http://main'', SUPABASE_ANON_KEY = ''key'', DEBUG_MODE = False\<rparr>"
        and w = "\<lparr>logged_at = ''t0'', start_ms = 0, iso_now = ''t1'',
           outcome = Rejected (JObj [(''message'', JStr ''timeout of 30000ms exceeded'')]),
           end_ms = 30001\<rparr>"
        and forward_result = "Rejected (JObj [(''message'', JStr ''timeout of 30000ms exceeded'')])"]
  have "\<exists>effs.
      twilio_webhook
        \<lparr>MAIN_APP_URL = ''http://main'', SUPABASE_ANON_KEY = ''key'', DEBUG_MODE = False\<rparr>
        ?req
        \<lparr>logged_at = ''t0'', start_ms = 0, iso_now = ''t1'',
         outcome = Rejected (JObj [(''message'', JStr ''timeout of 30000ms exceeded'')]),
         end_ms = 30001\<rparr>
        = Some (effs, None) \<and>
      responses effs =
        [(200, Text (''<?xml version='' @ [CHR 0x22] @ ''1.0'' @ [CHR 0x22] @
                     '' encoding='' @ [CHR 0x22] @ ''UTF-8'' @ [CHR 0x22] @
                     ''?><Response></Response>''))]"
    by simp
  with wf show ?thesis by (rule conjI)
qed

text \<open>
  Claim C3. For a well-formed request the effects of the handler are, in this order:
  a log line, the acknowledgment (status 200), a log line, the forward call, and
  then log lines only. The acknowledgment is sent before the forward call is made,
  and the four effects up to the call are the same whatever the outcome of the call:
  a call that fails or times out changes no response, and the run ends without an
  exception (the second component is \<open>None\<close>).
\<close>

theorem acknowledged_before_forward:
  assumes "wellformed req"
  shows "\<exists>received call. \<forall>forward_result. \<exists>rest.
           twilio_webhook cfg req (w\<lparr>outcome := forward_result\<rparr>) =
             Some ([Log received, Respond 200 (Text ack_xml),
                    Log (Forwarding (MAIN_APP_URL cfg @ ''/api/twilio/webhook'')),
                    Forward call] @ rest, None) \<and>
           list_all is_log rest"
proof -
  from twilio_webhook_wellformed [OF assms, of cfg w]
  obtain from_text to_text c mediaUrls where
    f: "to_string (own_prop (req_body req) ''From'') = Inr from_text" and
    t: "to_string (own_prop (req_body req) ''To'') = Inr to_text" and
    c: "parseInt (default_to (own_prop (req_body req) ''NumMedia'') (JStr ''0'')) = Inr c" and
    m: "media_loop (req_body req) c 0 [] = Some mediaUrls"
    by blast
  let ?call = "make_call cfg
                (make_payload (own_prop (req_body req) ''From'') (own_prop (req_body req) ''To'')
                   (default_to (own_prop (req_body req) ''Body'') (JStr []))
                   mediaUrls (own_prop (req_body req) ''MessageSid'') (iso_now w))"
  have "\<exists>rest.
           twilio_webhook cfg req (w\<lparr>outcome := forward_result\<rparr>) =
             Some ([Log (Received from_text to_text), Respond 200 (Text ack_xml),
                    Log (Forwarding (MAIN_APP_URL cfg @ ''/api/twilio/webhook'')),
                    Forward ?call] @ rest, None) \<and>
           list_all is_log rest" for forward_result
    using twilio_webhook_wellformed [OF assms, of cfg "w\<lparr>outcome := forward_result\<rparr>"] f t c m
    by auto
  then show ?thesis by blast
qed

theorem acknowledged_before_forward_witness:
  "wellformed
     \<lparr>req_method = ''POST'', req_path = ''/twilio-webhook'', req_headers = [],
      req_body = JObj [(''From'', JStr ''+1A''), (''To'', JStr ''+1B'')]\<rparr> \<and>
   (\<exists>received call. \<forall>forward_result. \<exists>rest.
      twilio_webhook
        \<lparr>MAIN_APP_URL = ''http://main'', SUPABASE_ANON_KEY = ''key'', DEBUG_MODE = True\<rparr>
        \<lparr>req_method = ''POST'', req_path = ''/twilio-webhook'', req_headers = [],
         req_body = JObj [(''From'', JStr ''+1A''), (''To'', JStr ''+1B'')]\<rparr>
        (\<lparr>logged_at = ''t0'', start_ms = 0, iso_now = ''t1'', outcome = Fulfilled JNull,
          end_ms = 7\<rparr>\<lparr>outcome := forward_result\<rparr>) =
        Some ([Log received, Respond 200 (Text ack_xml),
               Log (Forwarding
                 (MAIN_APP_URL \<lparr>MAIN_APP_URL = ''http://main'', SUPABASE_ANON_KEY = ''key'',
                                DEBUG_MODE = True\<rparr> @ ''/api/twilio/webhook'')),
               Forward call] @ rest, None) \<and>
      list_all is_log rest)"
proof -
  let ?req = "\<lparr>req_method = ''POST'', req_path = ''/twilio-webhook'', req_headers = [],
      req_body = JObj [(''From'', JStr ''+1A''), (''To'', JStr ''+1B'')]\<rparr>"
  have wf: "wellformed ?req"
    by (simp add: eval_wellformed eval_parse)
  show ?thesis
    by (rule conjI [OF wf acknowledged_before_forward [OF wf]])
qed

text \<open>
  Claim C4, as the specification states it, fails on the keys of the JSON body. For
  a well-formed request without \<^verbatim>\<open>From\<close>, \<^verbatim>\<open>To\<close> and \<^verbatim>\<open>MessageSid\<close> the payload
  properties \<^verbatim>\<open>from\<close>, \<^verbatim>\<open>to\<close> and \<^verbatim>\<open>messageId\<close> are \<^verbatim>\<open>undefined\<close>, and the body that
  is sent has the three keys \<^verbatim>\<open>body\<close>, \<^verbatim>\<open>mediaUrls\<close> and \<^verbatim>\<open>receivedAt\<close>, not six.
\<close>

theorem forward_json_keys_counterexample:
  "wellformed
     \<lparr>req_method = ''POST'', req_path = ''/twilio-webhook'', req_headers = [],
      req_body = JObj [(''Body'', JStr ''hi'')]\<rparr> \<and>
   twilio_webhook
     \<lparr>MAIN_APP_URL = ''http://main'', SUPABASE_ANON_KEY = ''key'', DEBUG_MODE = False\<rparr>
     \<lparr>req_method = ''POST'', req_path = ''/twilio-webhook'', req_headers = [],
      req_body = JObj [(''Body'', JStr ''hi'')]\<rparr>
     \<lparr>logged_at = ''t0'', start_ms = 0, iso_now = ''t1'', outcome = Fulfilled JNull,
      end_ms = 12\<rparr> =
     Some ([Log (Received ''undefined'' ''undefined''), Respond 200 (Text ack_xml),
            Log (Forwarding ''http://main/api/twilio/webhook''),
            Forward
              \<lparr>url = ''http://main/api/twilio/webhook'',
               payload = JObj [(''from'', JUndefined), (''to'', JUndefined), (''body'', JStr ''hi''),
                               (''mediaUrls'', JArr []), (''messageId'', JUndefined),
                               (''receivedAt'', JStr ''t1'')],
               call_headers = [(''Content-Type'', ''application/json''),
                               (''Authorization'', ''Bearer key'')],
               timeout = 30000\<rparr>,
            Log (Forwarded 12)], None) \<and>
   map fst (json_members
     (JObj [(''from'', JUndefined), (''to'', JUndefined), (''body'', JStr ''hi''),
            (''mediaUrls'', JArr []), (''messageId'', JUndefined),
            (''receivedAt'', JStr ''t1'')])) = [''body'', ''mediaUrls'', ''receivedAt'']"
proof -
  let ?req = "\<lparr>req_method = ''POST'', req_path = ''/twilio-webhook'', req_headers = [],
      req_body = JObj [(''Body'', JStr ''hi'')]\<rparr>"
  let ?call = "\<lparr>url = ''http://main/api/twilio/webhook'',
       payload = JObj [(''from'', JUndefined), (''to'', JUndefined), (''body'', JStr ''hi''),
                       (''mediaUrls'', JArr []), (''messageId'', JUndefined),
                       (''receivedAt'', JStr ''t1'')],
       call_headers = [(''Content-Type'', ''application/json''),
                       (''Authorization'', ''Bearer key'')],
       timeout = 30000\<rparr>"
  have wf: "wellformed ?req"
    by (simp add: eval_wellformed eval_parse)
  have l: "media_loop (JObj [(''Body'', JStr ''hi'')]) (Exact 0) 0 [] = Some []"
    by (subst media_loop.simps) simp
  have run: "twilio_webhook
        \<lparr>MAIN_APP_URL = ''http://main'', SUPABASE_ANON_KEY = ''key'', DEBUG_MODE = False\<rparr>
        ?req
        \<lparr>logged_at = ''t0'', start_ms = 0, iso_now = ''t1'', outcome = Fulfilled JNull,
         end_ms = 12\<rparr> =
      Some ([Log (Received ''undefined'' ''undefined''), Respond 200 (Text ack_xml),
             Log (Forwarding ''http://main/api/twilio/webhook''), Forward ?call,
             Log (Forwarded 12)], None)"
    by (simp add: eval_handler eval_parse l)
  have k: "map fst (json_members
     (JObj [(''from'', JUndefined), (''to'', JUndefined), (''body'', JStr ''hi''),
            (''mediaUrls'', JArr []), (''messageId'', JUndefined),
            (''receivedAt'', JStr ''t1'')])) = [''body'', ''mediaUrls'', ''receivedAt'']"
    by simp
  show ?thesis by (intro conjI wf run k)
qed

text \<open>
  Claim C4, amended. For a well-formed request the handler makes one forward call:
  \<^verbatim>\<open>axios.post\<close> to \<^verbatim>\<open>MAIN_APP_URL\<close> followed by \<^verbatim>\<open>/api/twilio/webhook\<close>, with a payload
  object of exactly the properties \<^verbatim>\<open>from\<close>, \<^verbatim>\<open>to\<close>, \<^verbatim>\<open>body\<close>, \<^verbatim>\<open>mediaUrls\<close>,
  \<^verbatim>\<open>messageId\<close> and \<^verbatim>\<open>receivedAt\<close>. The first three and \<^verbatim>\<open>messageId\<close> are the fields
  \<^verbatim>\<open>From\<close>, \<^verbatim>\<open>To\<close>, \<^verbatim>\<open>Body\<close> (the empty string when the field is \<^verbatim>\<open>undefined\<close>) and
  \<^verbatim>\<open>MessageSid\<close> of the request, \<^verbatim>\<open>mediaUrls\<close> is the list the loop built, and
  \<^verbatim>\<open>receivedAt\<close> is the text \<^verbatim>\<open>new Date().toISOString()\<close> returns at that moment. The
  JSON body has the keys \<^verbatim>\<open>body\<close>, \<^verbatim>\<open>mediaUrls\<close> and \<^verbatim>\<open>receivedAt\<close> and, of \<^verbatim>\<open>from\<close>,
  \<^verbatim>\<open>to\<close> and \<^verbatim>\<open>messageId\<close>, those whose field in the request is not \<^verbatim>\<open>undefined\<close>, in
  the order of the object: all six exactly when \<^verbatim>\<open>From\<close>, \<^verbatim>\<open>To\<close> and \<^verbatim>\<open>MessageSid\<close>
  are there. The headers are \<^verbatim>\<open>Content-Type: application/json\<close> and
  \<^verbatim>\<open>Authorization: Bearer\<close> with the credential, and the timeout is 30000 ms.
\<close>

theorem forward_call_contents:
  assumes "wellformed req"
  shows "\<exists>effs c mediaUrls sent.
           twilio_webhook cfg req w = Some (effs, None) \<and>
           parseInt (default_to (own_prop (req_body req) ''NumMedia'') (JStr ''0'')) = Inr c \<and>
           media_loop (req_body req) c 0 [] = Some mediaUrls \<and>
           sent =
             JObj [(''from'', own_prop (req_body req) ''From''),
                   (''to'', own_prop (req_body req) ''To''),
                   (''body'',
                    if own_prop (req_body req) ''Body'' = JUndefined then JStr []
                    else own_prop (req_body req) ''Body''),
                   (''mediaUrls'', JArr mediaUrls),
                   (''messageId'', own_prop (req_body req) ''MessageSid''),
                   (''receivedAt'', JStr (iso_now w))] \<and>
           forwards effs =
             [\<lparr>url = MAIN_APP_URL cfg @ ''/api/twilio/webhook'',
               payload = sent,
               call_headers =
                 [(''Content-Type'', ''application/json''),
                  (''Authorization'', ''Bearer '' @ SUPABASE_ANON_KEY cfg)],
               timeout = 30000\<rparr>] \<and>
           map fst (json_members sent) =
             (if own_prop (req_body req) ''From'' = JUndefined then [] else [''from'']) @
             (if own_prop (req_body req) ''To'' = JUndefined then [] else [''to'']) @
             [''body'', ''mediaUrls''] @
             (if own_prop (req_body req) ''MessageSid'' = JUndefined then [] else [''messageId'']) @
             [''receivedAt''] \<and>
           (map fst (json_members sent) =
              [''from'', ''to'', ''body'', ''mediaUrls'', ''messageId'', ''receivedAt''] \<longleftrightarrow>
            own_prop (req_body req) ''From'' \<noteq> JUndefined \<and>
            own_prop (req_body req) ''To'' \<noteq> JUndefined \<and>
            own_prop (req_body req) ''MessageSid'' \<noteq> JUndefined)"
proof -
  from twilio_webhook_wellformed [OF assms, of cfg w]
  obtain c mediaUrls effs rest call where
    c: "parseInt (default_to (own_prop (req_body req) ''NumMedia'') (JStr ''0'')) = Inr c" and
    m: "media_loop (req_body req) c 0 [] = Some mediaUrls" and
    logs: "list_all is_log rest" and
    call: "call = make_call cfg
                (make_payload (own_prop (req_body req) ''From'') (own_prop (req_body req) ''To'')
                   (default_to (own_prop (req_body req) ''Body'') (JStr []))
                   mediaUrls (own_prop (req_body req) ''MessageSid'') (iso_now w))" and
    run: "twilio_webhook cfg req w = Some (effs, None)" and
    effs: "forwards effs = forwards ([Forward call] @ rest)"
    by auto
  from effs logs have f: "forwards effs = [call]"
    by (simp add: forwards_logs)
  let ?sent = "JObj [(''from'', own_prop (req_body req) ''From''),
                   (''to'', own_prop (req_body req) ''To''),
                   (''body'',
                    if own_prop (req_body req) ''Body'' = JUndefined then JStr []
                    else own_prop (req_body req) ''Body''),
                   (''mediaUrls'', JArr mediaUrls),
                   (''messageId'', own_prop (req_body req) ''MessageSid''),
                   (''receivedAt'', JStr (iso_now w))]"
  from f call have f': "forwards effs =
             [\<lparr>url = MAIN_APP_URL cfg @ ''/api/twilio/webhook'',
               payload = ?sent,
               call_headers =
                 [(''Content-Type'', ''application/json''),
                  (''Authorization'', ''Bearer '' @ SUPABASE_ANON_KEY cfg)],
               timeout = 30000\<rparr>]"
    by (simp add: make_call_def make_payload_def default_to_def)
  have keys: "map fst (json_members ?sent) =
             (if own_prop (req_body req) ''From'' = JUndefined then [] else [''from'']) @
             (if own_prop (req_body req) ''To'' = JUndefined then [] else [''to'']) @
             [''body'', ''mediaUrls''] @
             (if own_prop (req_body req) ''MessageSid'' = JUndefined then [] else [''messageId'']) @
             [''receivedAt'']"
    by simp
  have six: "map fst (json_members ?sent) =
              [''from'', ''to'', ''body'', ''mediaUrls'', ''messageId'', ''receivedAt''] \<longleftrightarrow>
            own_prop (req_body req) ''From'' \<noteq> JUndefined \<and>
            own_prop (req_body req) ''To'' \<noteq> JUndefined \<and>
            own_prop (req_body req) ''MessageSid'' \<noteq> JUndefined"
    unfolding keys by simp
  show ?thesis
    by (rule exI [of _ effs], rule exI [of _ c], rule exI [of _ mediaUrls], rule exI [of _ ?sent])
       (intro conjI run c m refl f' keys six)
qed

text \<open>
  The example of the specification: \<^verbatim>\<open>NumMedia\<close> is \<^verbatim>\<open>"2"\<close>, \<^verbatim>\<open>MediaUrl0\<close> is there and
  \<^verbatim>\<open>MediaUrl1\<close> is not; the forwarded \<^verbatim>\<open>mediaUrls\<close> is the list of \<^verbatim>\<open>MediaUrl0\<close> alone,
  and the JSON body has the six keys.
\<close>

theorem forward_call_contents_witness:
  "wellformed
     \<lparr>req_method = ''POST'', req_path = ''/twilio-webhook'', req_headers = [],
      req_body = JObj [(''From'', JStr ''+1A''), (''To'', JStr ''+1B''), (''Body'', JStr ''hi''),
                       (''MessageSid'', JStr ''SM1''), (''NumMedia'', JStr ''2''),
                       (''MediaUrl0'', JStr ''http://x/1.jpg'')]\<rparr> \<and>
   (\<exists>effs sent.
      twilio_webhook
        \<lparr>MAIN_APP_URL = ''http://main'', SUPABASE_ANON_KEY = ''key'', DEBUG_MODE = False\<rparr>
        \<lparr>req_method = ''POST'', req_path = ''/twilio-webhook'', req_headers = [],
         req_body = JObj [(''From'', JStr ''+1A''), (''To'', JStr ''+1B''), (''Body'', JStr ''hi''),
                          (''MessageSid'', JStr ''SM1''), (''NumMedia'', JStr ''2''),
                          (''MediaUrl0'', JStr ''http://x/1.jpg'')]\<rparr>
        \<lparr>logged_at = ''t0'', start_ms = 0, iso_now = ''2024-01-01T00:00:00.000Z'',
         outcome = Fulfilled JNull, end_ms = 12\<rparr>
        = Some (effs, None) \<and>
      sent =
        JObj [(''from'', JStr ''+1A''), (''to'', JStr ''+1B''), (''body'', JStr ''hi''),
              (''mediaUrls'', JArr [JStr ''http://x/1.jpg'']),
              (''messageId'', JStr ''SM1''),
              (''receivedAt'', JStr ''2024-01-01T00:00:00.000Z'')] \<and>
      forwards effs =
        [\<lparr>url = ''http://main/api/twilio/webhook'',
          payload = sent,
          call_headers =
            [(''Content-Type'', ''application/json''), (''Authorization'', ''Bearer key'')],
          timeout = 30000\<rparr>] \<and>
      map fst (json_members sent) =
        [''from'', ''to'', ''body'', ''mediaUrls'', ''messageId'', ''receivedAt''])"
proof -
  let ?body = "JObj [(''From'', JStr ''+1A''), (''To'', JStr ''+1B''), (''Body'', JStr ''hi''),
                       (''MessageSid'', JStr ''SM1''), (''NumMedia'', JStr ''2''),
                       (''MediaUrl0'', JStr ''http://x/1.jpg'')]"
  let ?req = "\<lparr>req_method = ''POST'', req_path = ''/twilio-webhook'', req_headers = [],
      req_body = ?body\<rparr>"
  have wf: "wellformed ?req"
    by (simp add: eval_wellformed eval_parse)
  have p: "parseInt (default_to (own_prop ?body ''NumMedia'') (JStr ''0'')) = Inr (Exact 2)"
    by (simp add: eval_parse)
  have l: "media_loop ?body (Exact 2) 0 [] = Some [JStr ''http://x/1.jpg'']"
    by (simp add: media_loop.simps incr_def eval_text)
  let ?sent = "JObj [(''from'', JStr ''+1A''), (''to'', JStr ''+1B''), (''body'', JStr ''hi''),
              (''mediaUrls'', JArr [JStr ''http://x/1.jpg'']),
              (''messageId'', JStr ''SM1''),
              (''receivedAt'', JStr ''2024-01-01T00:00:00.000Z'')]"
  let ?call = "\<lparr>url = ''http://main/api/twilio/webhook'',
          payload = ?sent,
          call_headers =
            [(''Content-Type'', ''application/json''), (''Authorization'', ''Bearer key'')],
          timeout = 30000\<rparr>"
  have "\<exists>effs. twilio_webhook
        \<lparr>MAIN_APP_URL = ''http://main'', SUPABASE_ANON_KEY = ''key'', DEBUG_MODE = False\<rparr>
        ?req
        \<lparr>logged_at = ''t0'', start_ms = 0, iso_now = ''2024-01-01T00:00:00.000Z'',
         outcome = Fulfilled JNull, end_ms = 12\<rparr> = Some (effs, None)"
    using forward_call_contents [OF wf,
      where cfg = "\<lparr>MAIN_APP_URL = ''http://main'', SUPABASE_ANON_KEY = ''key'', DEBUG_MODE = False\<rparr>"
        and w = "\<lparr>logged_at = ''t0'', start_ms = 0, iso_now = ''2024-01-01T00:00:00.000Z'',
                  outcome = Fulfilled JNull, end_ms = 12\<rparr>"]
    by (elim exE conjE) (erule exI)
  then obtain effs where
    run: "twilio_webhook
        \<lparr>MAIN_APP_URL = ''http://main'', SUPABASE_ANON_KEY = ''key'', DEBUG_MODE = False\<rparr>
        ?req
        \<lparr>logged_at = ''t0'', start_ms = 0, iso_now = ''2024-01-01T00:00:00.000Z'',
         outcome = Fulfilled JNull, end_ms = 12\<rparr> = Some (effs, None)" ..
  have "twilio_webhook
        \<lparr>MAIN_APP_URL = ''http://main'', SUPABASE_ANON_KEY = ''key'', DEBUG_MODE = False\<rparr>
        ?req
        \<lparr>logged_at = ''t0'', start_ms = 0, iso_now = ''2024-01-01T00:00:00.000Z'',
         outcome = Fulfilled JNull, end_ms = 12\<rparr> =
      Some ([Log (Received ''+1A'' ''+1B''), Respond 200 (Text ack_xml),
             Log (Forwarding ''http://main/api/twilio/webhook''), Forward ?call,
             Log (Forwarded 12)], None)"
    by (simp add: eval_handler eval_parse l)
  with run have f: "forwards effs = [?call]" by auto
  have k: "map fst (json_members ?sent) =
        [''from'', ''to'', ''body'', ''mediaUrls'', ''messageId'', ''receivedAt'']"
    by simp
  have "\<exists>effs sent.
      twilio_webhook
        \<lparr>MAIN_APP_URL = ''http://main'', SUPABASE_ANON_KEY = ''key'', DEBUG_MODE = False\<rparr>
        ?req
        \<lparr>logged_at = ''t0'', start_ms = 0, iso_now = ''2024-01-01T00:00:00.000Z'',
         outcome = Fulfilled JNull, end_ms = 12\<rparr>
        = Some (effs, None) \<and>
      sent = ?sent \<and>
      forwards effs =
        [\<lparr>url = ''http://main/api/twilio/webhook'',
          payload = sent,
          call_headers =
            [(''Content-Type'', ''application/json''), (''Authorization'', ''Bearer key'')],
          timeout = 30000\<rparr>] \<and>
      map fst (json_members sent) =
        [''from'', ''to'', ''body'', ''mediaUrls'', ''messageId'', ''receivedAt'']"
    by (rule exI [of _ effs], rule exI [of _ ?sent]) (intro conjI run refl f k)
  with wf show ?thesis by (rule conjI)
qed

text \<open>
  Claim C10. The handler validates none of \<^verbatim>\<open>From\<close>, \<^verbatim>\<open>To\<close> and \<^verbatim>\<open>MessageSid\<close>. For
  every well-formed request, also one in which some of them are absent, it sends
  the 200 acknowledgment and makes the forward call; the payload properties
  \<^verbatim>\<open>from\<close>, \<^verbatim>\<open>to\<close> and \<^verbatim>\<open>messageId\<close> are the request's fields as they are, so
  \<^verbatim>\<open>undefined\<close> for an absent field, and such a property is not among the members of
  the serialised body. Only \<^verbatim>\<open>body\<close> has a default, the empty string.
\<close>

theorem absent_fields_not_validated:
  assumes "wellformed req"
  shows "\<exists>effs call kvs.
           twilio_webhook cfg req w = Some (effs, None) \<and>
           responses effs = [(200, Text ack_xml)] \<and>
           forwards effs = [call] \<and>
           payload call = JObj kvs \<and>
           map_of kvs ''from'' = Some (own_prop (req_body req) ''From'') \<and>
           map_of kvs ''to'' = Some (own_prop (req_body req) ''To'') \<and>
           map_of kvs ''messageId'' = Some (own_prop (req_body req) ''MessageSid'') \<and>
           (own_prop (req_body req) ''From'' = JUndefined \<longrightarrow>
              ''from'' \<notin> fst ` set (json_members (payload call))) \<and>
           (own_prop (req_body req) ''To'' = JUndefined \<longrightarrow>
              ''to'' \<notin> fst ` set (json_members (payload call))) \<and>
           (own_prop (req_body req) ''MessageSid'' = JUndefined \<longrightarrow>
              ''messageId'' \<notin> fst ` set (json_members (payload call))) \<and>
           (own_prop (req_body req) ''Body'' = JUndefined \<longrightarrow>
              map_of kvs ''body'' = Some (JStr []))"
proof -
  from twilio_webhook_wellformed [OF assms, of cfg w]
  obtain mediaUrls effs rest call where
    logs: "list_all is_log rest" and
    call: "call = make_call cfg
                (make_payload (own_prop (req_body req) ''From'') (own_prop (req_body req) ''To'')
                   (default_to (own_prop (req_body req) ''Body'') (JStr []))
                   mediaUrls (own_prop (req_body req) ''MessageSid'') (iso_now w))" and
    run: "twilio_webhook cfg req w = Some (effs, None)" and
    f: "forwards effs = forwards ([Forward call] @ rest)" and
    r: "responses effs = responses ([Respond 200 (Text ack_xml)] @ rest)"
    by auto
  from f logs have f': "forwards effs = [call]"
    by (simp add: forwards_logs)
  from r logs have r': "responses effs = [(200, Text ack_xml)]"
    by (simp add: responses_logs)
  from call have kvs: "payload call =
      JObj [(''from'', own_prop (req_body req) ''From''),
            (''to'', own_prop (req_body req) ''To''),
            (''body'', default_to (own_prop (req_body req) ''Body'') (JStr [])),
            (''mediaUrls'', JArr mediaUrls),
            (''messageId'', own_prop (req_body req) ''MessageSid''),
            (''receivedAt'', JStr (iso_now w))]"
    by (simp add: make_call_def make_payload_def)
  show ?thesis
    using run r' f' kvs by (auto simp: default_to_def)
qed

text \<open>A request with a body text and nothing else: no sender, recipient or identifier.\<close>

theorem absent_fields_not_validated_witness:
  "wellformed
     \<lparr>req_method = ''POST'', req_path = ''/twilio-webhook'', req_headers = [],
      req_body = JObj [(''NumMedia'', JStr ''0'')]\<rparr> \<and>
   (\<exists>effs call.
      twilio_webhook
        \<lparr>MAIN_APP_URL = ''http://main'', SUPABASE_ANON_KEY = ''key'', DEBUG_MODE = False\<rparr>
        \<lparr>req_method = ''POST'', req_path = ''/twilio-webhook'', req_headers = [],
         req_body = JObj [(''NumMedia'', JStr ''0'')]\<rparr>
        \<lparr>logged_at = ''t0'', start_ms = 0, iso_now = ''t1'', outcome = Fulfilled JNull,
         end_ms = 12\<rparr>
        = Some (effs, None) \<and>
      responses effs = [(200, Text ack_xml)] \<and>
      forwards effs = [call] \<and>
      own_prop (payload call) ''from'' = JUndefined \<and>
      own_prop (payload call) ''body'' = JStr [] \<and>
      map fst (json_members (payload call)) = [''body'', ''mediaUrls'', ''receivedAt''])"
proof -
  let ?req = "\<lparr>req_method = ''POST'', req_path = ''/twilio-webhook'', req_headers = [],
      req_body = JObj [(''NumMedia'', JStr ''0'')]\<rparr>"
  have wf: "wellformed ?req"
    by (simp add: eval_wellformed eval_parse)
  from absent_fields_not_validated [OF wf,
      where cfg = "\<lparr>MAIN_APP_URL = ''http://main'', SUPABASE_ANON_KEY = ''key'', DEBUG_MODE = False\<rparr>"
        and w = "\<lparr>logged_at = ''t0'', start_ms = 0, iso_now = ''t1'', outcome = Fulfilled JNull,
                  end_ms = 12\<rparr>"]
  obtain effs call where
    "twilio_webhook
        \<lparr>MAIN_APP_URL = ''http://main'', SUPABASE_ANON_KEY = ''key'', DEBUG_MODE = False\<rparr>
        ?req
        \<lparr>logged_at = ''t0'', start_ms = 0, iso_now = ''t1'', outcome = Fulfilled JNull,
         end_ms = 12\<rparr> = Some (effs, None)"
    "responses effs = [(200, Text ack_xml)]" "forwards effs = [call]"
    by blast
  moreover from this have "call = make_call
       \<lparr>MAIN_APP_URL = ''http://main'', SUPABASE_ANON_KEY = ''key'', DEBUG_MODE = False\<rparr>
       (make_payload JUndefined JUndefined (JStr []) [] JUndefined ''t1'')"
    by (auto simp: eval_handler eval_parse media_loop.simps)
  ultimately show ?thesis using wf
    by (auto simp: make_call_def make_payload_def)
qed

lemma webhook_try_responses:
  assumes "webhook_try cfg req w = Some (effs, x)"
  shows "(\<not> headersSent effs \<and> responses effs = [] \<and> x \<noteq> None) \<or>
         (headersSent effs \<and> responses effs = [(200, Text ack_xml)])"
proof -
  have logs: "responses (fst (after_forward cfg w)) = []"
    by (rule responses_logs [OF is_log_after_forward])
  show ?thesis
    using assms logs
    by (auto simp: webhook_try_def respond_and_forward_def headersSent_def
        split: if_splits sum.splits option.splits)
qed

text \<open>
  Claim C6. When the body of the outer \<^verbatim>\<open>try\<close> throws, the exception does not leave the
  handler: it is logged and the run ends normally. If no response had been sent, the
  handler sends status 500 with the XML document
  \<^verbatim>\<open><?xml version="1.0" encoding="UTF-8"?><Response></Response>\<close> (written out below
  as \<open>doc\<close>, with \<open>CHR 0x22\<close> for the double quote), and that is the only response
  of the run. If the response had been sent, nothing more is sent: the only
  response of the run is the 200 acknowledgment with the same document.
\<close>

theorem webhook_exception_boundary:
  fixes doc :: string
  defines "doc \<equiv> ''<?xml version='' @ [CHR 0x22] @ ''1.0'' @ [CHR 0x22] @ '' encoding='' @
                 [CHR 0x22] @ ''UTF-8'' @ [CHR 0x22] @ ''?><Response></Response>''"
  assumes "webhook_try cfg req w = Some (effs, Some error)"
  shows "(\<not> headersSent effs \<longrightarrow>
            twilio_webhook cfg req w =
              Some (effs @ [Log (WebhookError error), Respond 500 (Text doc)], None) \<and>
            responses (effs @ [Log (WebhookError error), Respond 500 (Text doc)]) =
              [(500, Text doc)]) \<and>
         (headersSent effs \<longrightarrow>
            twilio_webhook cfg req w = Some (effs @ [Log (WebhookError error)], None) \<and>
            responses (effs @ [Log (WebhookError error)]) = [(200, Text doc)])"
proof -
  have doc: "doc = ack_xml"
    by (simp add: doc_def ack_xml_def)
  have app: "responses (xs @ ys) = responses xs @ responses ys" for xs ys
  proof (induction xs)
    case Nil
    then show ?case by simp
  next
    case (Cons e xs)
    then show ?case by (cases e) simp_all
  qed
  from webhook_try_responses [OF assms(2)]
  have "(\<not> headersSent effs \<and> responses effs = []) \<or>
        (headersSent effs \<and> responses effs = [(200, Text ack_xml)])"
    by blast
  then show ?thesis
    unfolding doc using assms(2) by (auto simp: twilio_webhook_def app)
qed

text \<open>
  Two runs. In the first the JSON body gives \<^verbatim>\<open>From\<close> as an object with an own
  \<^verbatim>\<open>toString\<close> property, so the template literal throws before the acknowledgment.
  In the second the forward call is rejected with \<^verbatim>\<open>null\<close>, so reading
  \<^verbatim>\<open>forwardError.message\<close> throws after it.
\<close>

theorem webhook_exception_boundary_witness:
  "twilio_webhook
     \<lparr>MAIN_APP_URL = ''http://main'', SUPABASE_ANON_KEY = ''key'', DEBUG_MODE = False\<rparr>
     \<lparr>req_method = ''POST'', req_path = ''/twilio-webhook'', req_headers = [],
      req_body = JObj [(''From'', JObj [(''toString'', JNum ''1'')])]\<rparr>
     \<lparr>logged_at = ''t0'', start_ms = 0, iso_now = ''t1'', outcome = Fulfilled JNull, end_ms = 12\<rparr>
     = Some ([Log (WebhookError TypeError),
              Respond 500
                (Text (''<?xml version='' @ [CHR 0x22] @ ''1.0'' @ [CHR 0x22] @ '' encoding='' @
                       [CHR 0x22] @ ''UTF-8'' @ [CHR 0x22] @ ''?><Response></Response>''))],
             None) \<and>
   twilio_webhook
     \<lparr>MAIN_APP_URL = ''http://main'', SUPABASE_ANON_KEY = ''key'', DEBUG_MODE = False\<rparr>
     \<lparr>req_method = ''POST'', req_path = ''/twilio-webhook'', req_headers = [],
      req_body = JObj [(''From'', JStr ''+1A'')]\<rparr>
     \<lparr>logged_at = ''t0'', start_ms = 0, iso_now = ''t1'', outcome = Rejected JNull, end_ms = 12\<rparr>
     = Some ([Log (Received ''+1A'' ''undefined''),
              Respond 200
                (Text (''<?xml version='' @ [CHR 0x22] @ ''1.0'' @ [CHR 0x22] @ '' encoding='' @
                       [CHR 0x22] @ ''UTF-8'' @ [CHR 0x22] @ ''?><Response></Response>'')),
              Log (Forwarding ''http://main/api/twilio/webhook''),
              Forward
                \<lparr>url = ''http://main/api/twilio/webhook'',
                 payload = JObj [(''from'', JStr ''+1A''), (''to'', JUndefined), (''body'', JStr []),
                                 (''mediaUrls'', JArr []), (''messageId'', JUndefined),
                                 (''receivedAt'', JStr ''t1'')],
                 call_headers = [(''Content-Type'', ''application/json''),
                                 (''Authorization'', ''Bearer key'')],
                 timeout = 30000\<rparr>,
              Log (WebhookError TypeError)], None)"
proof -
  let ?cfg = "\<lparr>MAIN_APP_URL = ''http://main'', SUPABASE_ANON_KEY = ''key'', DEBUG_MODE = False\<rparr>"
  let ?req1 = "\<lparr>req_method = ''POST'', req_path = ''/twilio-webhook'', req_headers = [],
      req_body = JObj [(''From'', JObj [(''toString'', JNum ''1'')])]\<rparr>"
  let ?w1 = "\<lparr>logged_at = ''t0'', start_ms = 0, iso_now = ''t1'', outcome = Fulfilled JNull, end_ms = 12\<rparr>"
  let ?req2 = "\<lparr>req_method = ''POST'', req_path = ''/twilio-webhook'', req_headers = [],
      req_body = JObj [(''From'', JStr ''+1A'')]\<rparr>"
  let ?w2 = "\<lparr>logged_at = ''t0'', start_ms = 0, iso_now = ''t1'', outcome = Rejected JNull, end_ms = 12\<rparr>"
  let ?effs2 = "[Log (Received ''+1A'' ''undefined''),
              Respond 200 (Text ack_xml),
              Log (Forwarding ''http://main/api/twilio/webhook''),
              Forward
                \<lparr>url = ''http://main/api/twilio/webhook'',
                 payload = JObj [(''from'', JStr ''+1A''), (''to'', JUndefined), (''body'', JStr []),
                                 (''mediaUrls'', JArr []), (''messageId'', JUndefined),
                                 (''receivedAt'', JStr ''t1'')],
                 call_headers = [(''Content-Type'', ''application/json''),
                                 (''Authorization'', ''Bearer key'')],
                 timeout = 30000\<rparr>]"
  have t1: "webhook_try ?cfg ?req1 ?w1 = Some ([], Some TypeError)"
    by (simp add: webhook_try_def)
  have t2: "webhook_try ?cfg ?req2 ?w2 = Some (?effs2, Some TypeError)"
    by (simp add: webhook_try_def respond_and_forward_def after_forward_def get_prop_def
        make_call_def make_payload_def eval_parse media_loop.simps)
  have s1: "\<not> headersSent []" by (simp add: headersSent_def)
  have s2: "headersSent ?effs2" by (simp add: headersSent_def)
  from webhook_exception_boundary [OF t1] s1
  have "twilio_webhook ?cfg ?req1 ?w1 =
          Some ([Log (WebhookError TypeError),
                 Respond 500
                   (Text (''<?xml version='' @ [CHR 0x22] @ ''1.0'' @ [CHR 0x22] @ '' encoding='' @
                          [CHR 0x22] @ ''UTF-8'' @ [CHR 0x22] @ ''?><Response></Response>''))], None)"
    by simp
  moreover from webhook_exception_boundary [OF t2] s2
  have "twilio_webhook ?cfg ?req2 ?w2 = Some (?effs2 @ [Log (WebhookError TypeError)], None)"
    by blast
  ultimately show ?thesis by (simp add: ack_xml_def)
qed

subsection \<open>What well-formedness covers\<close>

text \<open>
  A body whose \<^verbatim>\<open>From\<close>, \<^verbatim>\<open>To\<close> and \<^verbatim>\<open>NumMedia\<close> fields are strings where they are
  there, as in a form-encoded callback, with a count of at most \<open>2\<^sup>5\<^sup>3 + 1\<close>, is
  well formed.
\<close>

lemma form_request_wellformed:
  assumes "req_body req = JObj kvs"
    and "\<And>v. map_of kvs ''From'' = Some v \<Longrightarrow> \<exists>s. v = JStr s"
    and "\<And>v. map_of kvs ''To'' = Some v \<Longrightarrow> \<exists>s. v = JStr s"
    and "\<And>v. map_of kvs ''NumMedia'' = Some v \<Longrightarrow>
           \<exists>s. v = JStr s \<and> (\<forall>n. parse_digits s = Some n \<longrightarrow> n \<le> 2 ^ 53 + 1)"
  shows "wellformed req"
proof -
  have f: "converts (own_prop (req_body req) ''From'')"
    using assms(1,2) by (cases "map_of kvs ''From''") (auto simp: converts_def)
  have t: "converts (own_prop (req_body req) ''To'')"
    using assms(1,3) by (cases "map_of kvs ''To''") (auto simp: converts_def)
  have n: "reachable_count (default_to (own_prop (req_body req) ''NumMedia'') (JStr ''0''))"
  proof (cases "map_of kvs ''NumMedia''")
    case None
    with assms(1) show ?thesis
      by (simp add: reachable_count_def eval_parse)
  next
    case (Some v)
    with assms(4) obtain s where v: "v = JStr s"
      and s: "\<forall>n. parse_digits s = Some n \<longrightarrow> n \<le> 2 ^ 53 + 1" by blast
    from s have "to_count (parse_digits s) \<noteq> Beyond"
      by (cases "parse_digits s") (auto simp: to_count_def)
    with assms(1) Some v show ?thesis
      by (simp add: reachable_count_def parseInt_def default_to_def)
  qed
  from assms(1) f t n show ?thesis
    by (simp add: wellformed_def)
qed

text \<open>
  Well-formedness is exact: the handler answers a request with the 200
  acknowledgment if and only if the request is well formed. Any other request gets
  the 500 document, or, when the count is beyond the reach of the loop counter, no
  response at all.
\<close>

lemma not_wellformed_run:
  assumes "\<not> wellformed req"
  shows "twilio_webhook cfg req w = None \<or>
         (\<exists>effs. twilio_webhook cfg req w = Some (effs, None) \<and>
                 responses effs = [(500, Text ack_xml)] \<and> forwards effs = [])"
proof (cases "req_body req = JUndefined \<or> req_body req = JNull")
  case True
  then show ?thesis
    by (auto simp: twilio_webhook_def webhook_try_def headersSent_def)
next
  case body: False
  show ?thesis
  proof (cases "to_string (own_prop (req_body req) ''From'')")
    case (Inl e)
    with body show ?thesis
      by (auto simp: twilio_webhook_def webhook_try_def headersSent_def)
  next
    case f: (Inr from_text)
    show ?thesis
    proof (cases "to_string (own_prop (req_body req) ''To'')")
      case (Inl e)
      with body f show ?thesis
        by (auto simp: twilio_webhook_def webhook_try_def headersSent_def)
    next
      case t: (Inr to_text)
      show ?thesis
      proof (cases "parseInt (default_to (own_prop (req_body req) ''NumMedia'') (JStr ''0''))")
        case (Inl e)
        with body f t show ?thesis
          by (auto simp: twilio_webhook_def webhook_try_def headersSent_def)
      next
        case c: (Inr c)
        with assms body f t have "c = Beyond"
          by (auto simp: wellformed_def converts_def reachable_count_def)
        with body f t c have "twilio_webhook cfg req w = None"
          by (simp add: twilio_webhook_def webhook_try_def media_loop_Beyond)
        then show ?thesis by simp
      qed
    qed
  qed
qed

lemma acknowledged_iff_wellformed:
  "(\<exists>effs. twilio_webhook cfg req w = Some (effs, None) \<and>
           responses effs = [(200, Text ack_xml)]) \<longleftrightarrow> wellformed req"
proof
  assume "\<exists>effs. twilio_webhook cfg req w = Some (effs, None) \<and>
           responses effs = [(200, Text ack_xml)]"
  then obtain effs where run: "twilio_webhook cfg req w = Some (effs, None)"
    and ok: "responses effs = [(200, Text ack_xml)]" by blast
  show "wellformed req"
  proof (rule ccontr)
    assume "\<not> wellformed req"
    from not_wellformed_run [OF this, of cfg w] run ok show False by auto
  qed
next
  assume "wellformed req"
  from twilio_webhook_wellformed [OF this, of cfg w]
  obtain effs rest where
    "twilio_webhook cfg req w = Some (effs, None)"
    and "responses effs = responses ([Respond 200 (Text ack_xml)] @ rest)"
    and "list_all is_log rest"
    by auto
  then show "\<exists>effs. twilio_webhook cfg req w = Some (effs, None) \<and>
           responses effs = [(200, Text ack_xml)]"
    by (auto simp: responses_logs)
qed

text \<open>
  A count above \<open>2\<^sup>5\<^sup>3 + 1\<close>: the loop counter stops growing at \<open>2\<^sup>5\<^sup>3\<close>, the
  loop never ends and the request is never answered.
\<close>

lemma huge_count_never_answered:
  "twilio_webhook cfg
     \<lparr>req_method = ''POST'', req_path = ''/twilio-webhook'', req_headers = [],
      req_body = JObj [(''NumMedia'', JStr ''9007199254740994'')]\<rparr> w = None"
proof -
  have "parse_digits ''9007199254740994'' = Some 9007199254740994"
    by (simp add: parse_digits_def unsigned_def is_digit_def digits_val_def digit_val_def
        ws1_def ws2_def ws3_def)
  then have "parseInt (JStr ''9007199254740994'') = Inr Beyond"
    by (simp add: parseInt_def to_count_def)
  then show ?thesis
    by (simp add: twilio_webhook_def webhook_try_def default_to_def media_loop_Beyond)
qed

subsection \<open>Routing and the debug flag\<close>

lemma responses_debug_logging: "responses (debug_logging cfg req w) = []"
  by (simp add: debug_logging_def)

lemmas eval_routes = is_health_def is_webhook_def route_matches_def lower_def





text \<open>
  The other requests whose path is neither endpoint: a path that cannot be decoded
  goes to the global error handler, and \<^verbatim>\<open>cors\<close> answers \<^verbatim>\<open>OPTIONS\<close>.
\<close>

lemma undecodable_path_error:
  assumes "req_method req \<noteq> ''OPTIONS''"
    and "\<not> is_health req" and "\<not> is_webhook req"
    and "\<not> decodes [] 0 (req_path req)"
  shows "app cfg (Passed req) w =
           Some (prepend (debug_logging cfg req w) (error_handler cfg (decode_error (req_path req))))"
  using assms by (simp add: app_def catch_all_def)

lemma options_preflight:
  "req_method (request_of a) = ''OPTIONS'' \<Longrightarrow> app cfg a w = Some ([Respond 204 (Text [])], None)"
  by (simp add: app_def preflight_def)

text \<open>The effects of a run other than log lines, and how the run ended.\<close>

lemma quiet_after_forward:
  "filter (\<lambda>e. \<not> is_log e) (fst (after_forward cfg w)) = []"
  using is_log_after_forward [of cfg w]
  by (simp add: list_all_iff)

lemma after_forward_debug:
  "snd (after_forward (cfg\<lparr>DEBUG_MODE := d\<rparr>) w) = snd (after_forward cfg w)"
  by (simp add: after_forward_def split: forward_outcome.splits sum.splits)

lemma headersSent_filter: "headersSent (filter (\<lambda>e. \<not> is_log e) effs) = headersSent effs"
proof (induction effs)
  case Nil
  then show ?case by simp
next
  case (Cons e effs)
  then show ?case by (cases e) (simp_all add: headersSent_def)
qed

lemma webhook_catch_quiet:
  "filter (\<lambda>e. \<not> is_log e) (fst (webhook_catch (effs, x))) =
     filter (\<lambda>e. \<not> is_log e) effs @
     (if x \<noteq> None \<and> \<not> headersSent (filter (\<lambda>e. \<not> is_log e) effs)
      then [Respond 500 (Text ack_xml)] else [])"
  by (cases x) (simp_all add: headersSent_filter)

lemma webhook_catch_ends: "snd (webhook_catch r) = None"
  by (cases r rule: webhook_catch.cases) simp_all

lemma webhook_try_debug:
  "map_option quiet (webhook_try (cfg\<lparr>DEBUG_MODE := d\<rparr>) req w) =
   map_option quiet (webhook_try cfg req w)"
  by (simp add: webhook_try_def respond_and_forward_def quiet_after_forward after_forward_debug
      make_call_def quiet_def split: sum.splits option.splits)

lemma twilio_webhook_debug:
  "map_option quiet (twilio_webhook (cfg\<lparr>DEBUG_MODE := d\<rparr>) req w) =
   map_option quiet (twilio_webhook cfg req w)"
proof -
  let ?g = "\<lambda>q :: run. (fst q @
         (if snd q \<noteq> None \<and> \<not> headersSent (fst q)
          then [Respond 500 (Text ack_xml)] else []), None :: js_error option)"
  have catch: "quiet (webhook_catch r) = ?g (quiet r)" for r
    using webhook_catch_quiet [of "fst r" "snd r"] by (simp add: webhook_catch_ends quiet_def)
  have "map_option quiet (twilio_webhook c req w) =
        map_option ?g (map_option quiet (webhook_try c req w))" for c
    by (simp add: twilio_webhook_def option.map_comp comp_def catch)
  then show ?thesis by (simp only: webhook_try_debug)
qed

lemma quiet_prepend_debug: "quiet (prepend (debug_logging cfg req w) r) = quiet r"
  by (simp add: quiet_def prepend_def debug_logging_def)

lemma after_parsers_quiet:
  "map_option quiet (after_parsers cfg (Passed req) w) =
     (if is_health req then Some (quiet (health cfg w))
      else if is_webhook req then map_option quiet (twilio_webhook cfg req w)
      else Some (quiet (catch_all cfg req)))"
  by (simp add: option.map_comp comp_def quiet_prepend_debug)

lemma app_routes:
  "is_health req \<or> is_webhook req \<Longrightarrow> app cfg (Passed req) w = after_parsers cfg (Passed req) w"
  by (auto simp: app_def is_health_def is_webhook_def)

lemma quiet_error_handler:
  "quiet (error_handler cfg error) =
     ([Respond 500
         (Json (JObj [(''error'', JStr ''Internal server error''),
                      (''message'',
                       if DEBUG_MODE cfg then own_prop error ''message''
                       else JStr ''Something went wrong'')]))], None)"
  by (simp add: quiet_def error_handler_def)

lemma responses_quiet: "responses (fst (quiet r)) = responses (fst r)"
proof -
  have "responses (filter (\<lambda>e. \<not> is_log e) effs) = responses effs" for effs
  proof (induction effs)
    case Nil
    then show ?case by simp
  next
    case (Cons e effs)
    then show ?case by (cases e) simp_all
  qed
  then show ?thesis by (simp add: quiet_def)
qed

text \<open>
  Claim C9. The debug flag changes no control flow. For every request to
  \<^verbatim>\<open>GET /health\<close> or \<^verbatim>\<open>POST /twilio-webhook\<close> that the body parsers pass on, the run
  with the flag set and the run with the flag clear differ in log lines only: they
  send the same responses (status and body), make the same forward call and end the
  same way, or both never leave the loop. For every arrival whatever, the two runs
  differ in log lines only, or both are answers of the global error handler, with
  status 500 and the same \<^verbatim>\<open>error\<close> text, which differ in the \<^verbatim>\<open>message\<close> alone: the
  error's own \<^verbatim>\<open>message\<close> when the flag is set, \<^verbatim>\<open>Something went wrong\<close> when it is
  clear. So the one response the flag alters is that of the error boundary.
\<close>

theorem debug_flag_only_logs:
  "((is_health req \<or> is_webhook req) \<longrightarrow>
      map_option quiet (app (cfg\<lparr>DEBUG_MODE := True\<rparr>) (Passed req) w) =
        map_option quiet (app (cfg\<lparr>DEBUG_MODE := False\<rparr>) (Passed req) w) \<and>
      map_option (\<lambda>r. responses (fst r)) (app (cfg\<lparr>DEBUG_MODE := True\<rparr>) (Passed req) w) =
        map_option (\<lambda>r. responses (fst r)) (app (cfg\<lparr>DEBUG_MODE := False\<rparr>) (Passed req) w)) \<and>
   (map_option quiet (app (cfg\<lparr>DEBUG_MODE := True\<rparr>) a w) =
      map_option quiet (app (cfg\<lparr>DEBUG_MODE := False\<rparr>) a w) \<or>
    (\<exists>error.
       map_option quiet (app (cfg\<lparr>DEBUG_MODE := True\<rparr>) a w) =
         Some ([Respond 500 (Json (JObj [(''error'', JStr ''Internal server error''),
                                         (''message'', own_prop error ''message'')]))], None) \<and>
       map_option quiet (app (cfg\<lparr>DEBUG_MODE := False\<rparr>) a w) =
         Some ([Respond 500 (Json (JObj [(''error'', JStr ''Internal server error''),
                                         (''message'', JStr ''Something went wrong'')]))], None)))"
proof -
  let ?T = "cfg\<lparr>DEBUG_MODE := True\<rparr>" and ?F = "cfg\<lparr>DEBUG_MODE := False\<rparr>"
  have h: "health ?T w = health ?F w"
    by (simp add: health_def)
  have t: "map_option quiet (twilio_webhook ?T r w) = map_option quiet (twilio_webhook ?F r w)" for r
    by (simp only: twilio_webhook_debug)
  have parsed: "map_option quiet (after_parsers ?T (Passed r) w) =
                map_option quiet (after_parsers ?F (Passed r) w)"
    if "is_health r \<or> is_webhook r" for r
    unfolding after_parsers_quiet using that h t [of r] by auto
  have routes: "map_option quiet (app ?T (Passed req) w) = map_option quiet (app ?F (Passed req) w)"
    if "is_health req \<or> is_webhook req"
    using parsed [OF that] by (simp only: app_routes [OF that])
  have resp: "map_option (\<lambda>r. responses (fst r)) (app c (Passed req) w) =
        map_option (\<lambda>r. responses (fst r)) (map_option quiet (app c (Passed req) w))" for c
    by (simp only: option.map_comp comp_def responses_quiet)
  have first: "map_option quiet (app ?T (Passed req) w) = map_option quiet (app ?F (Passed req) w) \<and>
      map_option (\<lambda>r. responses (fst r)) (app ?T (Passed req) w) =
        map_option (\<lambda>r. responses (fst r)) (app ?F (Passed req) w)"
    if "is_health req \<or> is_webhook req"
    using routes [OF that] resp [of ?T] resp [of ?F] by simp
  let ?same = "map_option quiet (app ?T a w) = map_option quiet (app ?F a w)"
  let ?boundary = "\<lambda>error.
       map_option quiet (app ?T a w) =
         Some ([Respond 500 (Json (JObj [(''error'', JStr ''Internal server error''),
                                         (''message'', own_prop error ''message'')]))], None) \<and>
       map_option quiet (app ?F a w) =
         Some ([Respond 500 (Json (JObj [(''error'', JStr ''Internal server error''),
                                         (''message'', JStr ''Something went wrong'')]))], None)"
  have second: "?same \<or> (\<exists>error. ?boundary error)"
  proof (cases "req_method (request_of a) = ''OPTIONS''")
    case True
    then have ?same by (simp add: app_def)
    then show ?thesis ..
  next
    case no_preflight: False
    show ?thesis
    proof (cases a)
      case (Raised r error)
      with no_preflight have "?boundary error"
        by (simp add: app_def quiet_error_handler)
      then show ?thesis by blast
    next
      case (Passed r)
      show ?thesis
      proof (cases "is_health r \<or> is_webhook r")
        case True
        from parsed [OF True] no_preflight Passed have ?same by (simp only: app_def if_False)
        then show ?thesis ..
      next
        case False
        show ?thesis
        proof (cases "decodes [] 0 (req_path r)")
          case True
          with False no_preflight Passed have ?same
            by (simp add: app_def catch_all_def option.map_comp comp_def quiet_prepend_debug)
          then show ?thesis ..
        next
          case undecodable: False
          with False no_preflight Passed have "?boundary (decode_error (req_path r))"
            by (simp add: app_def catch_all_def quiet_prepend_debug quiet_error_handler)
          then show ?thesis by blast
        qed
      qed
    qed
  qed
  from first second show ?thesis by blast
qed

text \<open>
  A webhook request in both modes: with the flag set the run has four more log
  lines, and the same response and forward call.
\<close>

theorem debug_flag_only_logs_witness:
  "is_webhook \<lparr>req_method = ''POST'', req_path = ''/twilio-webhook'', req_headers = [],
               req_body = JObj [(''From'', JStr ''+1A'')]\<rparr> \<and>
   map_option quiet
     (app \<lparr>MAIN_APP_URL = ''http://main'', SUPABASE_ANON_KEY = ''key'', DEBUG_MODE = True\<rparr>
        (Passed \<lparr>req_method = ''POST'', req_path = ''/twilio-webhook'', req_headers = [],
                 req_body = JObj [(''From'', JStr ''+1A'')]\<rparr>)
        \<lparr>logged_at = ''t0'', start_ms = 0, iso_now = ''t1'', outcome = Fulfilled JNull,
         end_ms = 12\<rparr>) =
   map_option quiet
     (app \<lparr>MAIN_APP_URL = ''http://main'', SUPABASE_ANON_KEY = ''key'', DEBUG_MODE = False\<rparr>
        (Passed \<lparr>req_method = ''POST'', req_path = ''/twilio-webhook'', req_headers = [],
                 req_body = JObj [(''From'', JStr ''+1A'')]\<rparr>)
        \<lparr>logged_at = ''t0'', start_ms = 0, iso_now = ''t1'', outcome = Fulfilled JNull,
         end_ms = 12\<rparr>)"
proof -
  let ?req = "\<lparr>req_method = ''POST'', req_path = ''/twilio-webhook'', req_headers = [],
               req_body = JObj [(''From'', JStr ''+1A'')]\<rparr>"
  have r: "is_webhook ?req"
    by (simp add: eval_routes)
  from debug_flag_only_logs
    [where cfg = "\<lparr>MAIN_APP_URL = ''http://main'', SUPABASE_ANON_KEY = ''key'', DEBUG_MODE = False\<rparr>"
       and req = ?req
       and w = "\<lparr>logged_at = ''t0'', start_ms = 0, iso_now = ''t1'', outcome = Fulfilled JNull,
                 end_ms = 12\<rparr>"]
    r
  have "map_option quiet
     (app \<lparr>MAIN_APP_URL = ''http://main'', SUPABASE_ANON_KEY = ''key'', DEBUG_MODE = True\<rparr>
        (Passed ?req)
        \<lparr>logged_at = ''t0'', start_ms = 0, iso_now = ''t1'', outcome = Fulfilled JNull,
         end_ms = 12\<rparr>) =
   map_option quiet
     (app \<lparr>MAIN_APP_URL = ''http://main'', SUPABASE_ANON_KEY = ''key'', DEBUG_MODE = False\<rparr>
        (Passed ?req)
        \<lparr>logged_at = ''t0'', start_ms = 0, iso_now = ''t1'', outcome = Fulfilled JNull,
         end_ms = 12\<rparr>)"
    by simp
  with r show ?thesis by (rule conjI)
qed

subsection \<open>Start-up\<close>

lemma missingEnvVars_iff:
  "missingEnvVars env = [] \<longleftrightarrow>
     (\<exists>u k. env ''MAIN_APP_URL'' = Some u \<and> u \<noteq> [] \<and> env ''SUPABASE_ANON_KEY'' = Some k \<and> k \<noteq> [])"
  by (auto simp: missingEnvVars_def requiredEnvVars_def env_value_def split: option.splits)

text \<open>
  Claim C7, as the specification states it, fails: with \<^verbatim>\<open>MAIN_APP_URL\<close> set to the
  empty text and the credential set, both values are present in the environment,
  and the process exits with code 1, reporting \<^verbatim>\<open>MAIN_APP_URL\<close> as missing.
\<close>

theorem startup_present_counterexample:
  "present (map_of [(''MAIN_APP_URL'', []), (''SUPABASE_ANON_KEY'', ''key'')]) ''MAIN_APP_URL'' \<and>
   present (map_of [(''MAIN_APP_URL'', []), (''SUPABASE_ANON_KEY'', ''key'')]) ''SUPABASE_ANON_KEY'' \<and>
   start (map_of [(''MAIN_APP_URL'', []), (''SUPABASE_ANON_KEY'', ''key'')]) =
     Exit 1 [''MAIN_APP_URL'']"
  by (simp add: present_def start_def missingEnvVars_def requiredEnvVars_def env_value_def)

text \<open>
  Claim C7, amended. The test is the truthiness of the value, so a variable set to
  the empty text counts as missing. If \<^verbatim>\<open>MAIN_APP_URL\<close> or \<^verbatim>\<open>SUPABASE_ANON_KEY\<close> is
  not set or is empty, the process exits with code 1 and serves nothing. If both
  are set to non-empty texts, start-up goes on to serve with these two values, in
  debug mode exactly when \<^verbatim>\<open>DEBUG_MODE\<close> is the text \<^verbatim>\<open>true\<close>.
\<close>

theorem startup_check:
  "((env ''MAIN_APP_URL'' = None \<or> env ''MAIN_APP_URL'' = Some [] \<or>
     env ''SUPABASE_ANON_KEY'' = None \<or> env ''SUPABASE_ANON_KEY'' = Some []) \<longrightarrow>
      (\<exists>missing. missing \<noteq> [] \<and> start env = Exit 1 missing)) \<and>
   (\<forall>u k. env ''MAIN_APP_URL'' = Some u \<and> u \<noteq> [] \<and>
          env ''SUPABASE_ANON_KEY'' = Some k \<and> k \<noteq> [] \<longrightarrow>
      start env =
        Serving \<lparr>MAIN_APP_URL = u, SUPABASE_ANON_KEY = k,
                 DEBUG_MODE = (env ''DEBUG_MODE'' = Some ''true'')\<rparr>)"
proof (intro conjI allI impI)
  assume "env ''MAIN_APP_URL'' = None \<or> env ''MAIN_APP_URL'' = Some [] \<or>
     env ''SUPABASE_ANON_KEY'' = None \<or> env ''SUPABASE_ANON_KEY'' = Some []"
  then have "missingEnvVars env \<noteq> []"
    by (auto simp: missingEnvVars_iff)
  then show "\<exists>missing. missing \<noteq> [] \<and> start env = Exit 1 missing"
    by (simp add: start_def)
next
  fix u k
  assume a: "env ''MAIN_APP_URL'' = Some u \<and> u \<noteq> [] \<and>
          env ''SUPABASE_ANON_KEY'' = Some k \<and> k \<noteq> []"
  then have "missingEnvVars env = []"
    by (simp add: missingEnvVars_iff)
  with a show "start env =
        Serving \<lparr>MAIN_APP_URL = u, SUPABASE_ANON_KEY = k,
                 DEBUG_MODE = (env ''DEBUG_MODE'' = Some ''true'')\<rparr>"
    by (auto simp: start_def env_text_def env_value_def split: option.splits)
qed

text \<open>An environment without \<^verbatim>\<open>MAIN_APP_URL\<close>, and one with both values and the debug flag.\<close>

theorem startup_check_witness:
  "start (map_of [(''SUPABASE_ANON_KEY'', ''key'')]) = Exit 1 [''MAIN_APP_URL''] \<and>
   start (map_of [(''MAIN_APP_URL'', ''http://main''), (''SUPABASE_ANON_KEY'', ''key''),
                  (''DEBUG_MODE'', ''true'')]) =
     Serving \<lparr>MAIN_APP_URL = ''http://main'', SUPABASE_ANON_KEY = ''key'', DEBUG_MODE = True\<rparr>"
proof -
  let ?e1 = "map_of [(''SUPABASE_ANON_KEY'', ''key'')]"
  let ?e2 = "map_of [(''MAIN_APP_URL'', ''http://main''), (''SUPABASE_ANON_KEY'', ''key''),
                  (''DEBUG_MODE'', ''true'')]"
  from startup_check [of ?e1] obtain missing where
    "missing \<noteq> []" and e: "start ?e1 = Exit 1 missing"
    by auto
  have "start ?e1 = Exit 1 [''MAIN_APP_URL'']"
    by (simp add: start_def missingEnvVars_def requiredEnvVars_def env_value_def)
  moreover from startup_check [of ?e2]
  have "start ?e2 =
     Serving \<lparr>MAIN_APP_URL = ''http://main'', SUPABASE_ANON_KEY = ''key'', DEBUG_MODE = True\<rparr>"
    by simp
  ultimately show ?thesis by simp
qed

subsection \<open>A count that is not a number\<close>

lemma parse_digits_None: "parse_digits s = None \<longleftrightarrow> \<not> leading_digit s"
  by (cases "unsigned (trim_start s)")
     (auto simp: parse_digits_def leading_digit_def Let_def split: if_splits)

lemma trim_start_digit: "is_digit c \<Longrightarrow> trim_start (c # s) = c # s"
proof -
  assume "is_digit c"
  then have "[c] \<notin> set ws1" and "c # take 1 s \<notin> set ws2" and "c # take 2 s \<notin> set ws3"
    by (auto simp: is_digit_def ws1_def ws2_def ws3_def)
  then show ?thesis by simp
qed

lemma unsigned_digit: "is_digit c \<Longrightarrow> unsigned (c # s) = c # s"
  by (auto simp: is_digit_def unsigned_def)

lemma takeWhile_digits:
  "list_all is_digit ds \<Longrightarrow> rest = [] \<or> \<not> is_digit (hd rest) \<Longrightarrow>
   takeWhile is_digit (ds @ rest) = ds"
  by (induction ds) (auto simp: takeWhile_eq_Nil_iff)

text \<open>A text that starts with digits is read as those digits, whatever follows them.\<close>

lemma parse_digits_leading:
  assumes "ds \<noteq> []" and "list_all is_digit ds" and "rest = [] \<or> \<not> is_digit (hd rest)"
  shows "parse_digits (ds @ rest) = Some (digits_val ds)"
proof -
  from assms(1) obtain d ds' where ds: "ds = d # ds'" by (cases ds) auto
  with assms(2) have d: "is_digit d" by simp
  then have "\<not> (take 1 (ds @ rest) = ''-'')"
    using ds by (auto simp: is_digit_def)
  with d ds takeWhile_digits [OF assms(2,3)] assms(1) show ?thesis
    by (simp add: parse_digits_def trim_start_digit unsigned_digit Let_def
        del: takeWhile.simps trim_start.simps)
qed

text \<open>
  Claim C5, as the specification states it, fails: \<^verbatim>\<open>2abc\<close> is no numeric text, and
  for a body with \<^verbatim>\<open>NumMedia = "2abc"\<close> and a \<^verbatim>\<open>MediaUrl0\<close> the count read is 2 and the
  list holds \<^verbatim>\<open>MediaUrl0\<close>: \<^verbatim>\<open>parseInt\<close> reads the leading digits and ignores the rest.
\<close>

theorem non_numeric_count_counterexample:
  "\<not> numeric_text ''2abc'' \<and>
   parseInt (default_to
      (own_prop (JObj [(''NumMedia'', JStr ''2abc''), (''MediaUrl0'', JStr ''http://x/1.jpg'')])
         ''NumMedia'') (JStr ''0'')) = Inr (Exact 2) \<and>
   media_loop (JObj [(''NumMedia'', JStr ''2abc''), (''MediaUrl0'', JStr ''http://x/1.jpg'')])
     (Exact 2) 0 [] = Some [JStr ''http://x/1.jpg'']"
  by (simp add: numeric_text_def unsigned_def eval_parse eval_text media_loop.simps incr_def)

text \<open>
  Claim C5, amended. When \<^verbatim>\<open>NumMedia\<close> is absent, or its text has no decimal digit
  right after the leading white space and an optional sign, the count is zero or
  \<^verbatim>\<open>NaN\<close>, the loop body never runs and the list is empty, as it is for
  \<^verbatim>\<open>NumMedia = "0"\<close>. When its text starts with decimal digits, whatever follows
  them, the count is the number these leading digits give.
\<close>

theorem count_without_digits:
  "((own_prop reqBody ''NumMedia'' = JUndefined \<or>
     (\<exists>s. to_string (own_prop reqBody ''NumMedia'') = Inr s \<and> \<not> leading_digit s)) \<longrightarrow>
    (\<exists>c. parseInt (default_to (own_prop reqBody ''NumMedia'') (JStr ''0'')) = Inr c \<and>
         (c = NaN \<or> c = Exact 0) \<and>
         media_loop reqBody c 0 [] = Some [] \<and>
         parseInt (JStr ''0'') = Inr (Exact 0) \<and>
         media_loop reqBody (Exact 0) 0 [] = Some [])) \<and>
   (\<forall>ds rest.
      to_string (own_prop reqBody ''NumMedia'') = Inr (ds @ rest) \<and>
      ds \<noteq> [] \<and> list_all is_digit ds \<and> (rest = [] \<or> \<not> is_digit (hd rest)) \<longrightarrow>
      parseInt (default_to (own_prop reqBody ''NumMedia'') (JStr ''0'')) =
        Inr (to_count (Some (digits_val ds))))"
proof (intro conjI allI impI)
  assume a: "own_prop reqBody ''NumMedia'' = JUndefined \<or>
           (\<exists>s. to_string (own_prop reqBody ''NumMedia'') = Inr s \<and> \<not> leading_digit s)"
  have zero: "parseInt (JStr ''0'') = Inr (Exact 0)"
    by (simp add: eval_parse)
  have l0: "media_loop reqBody (Exact 0) 0 [] = Some []"
    by (subst media_loop.simps) simp
  have ln: "media_loop reqBody NaN 0 [] = Some []"
    by (rule media_loop_NaN)
  show "\<exists>c. parseInt (default_to (own_prop reqBody ''NumMedia'') (JStr ''0'')) = Inr c \<and>
         (c = NaN \<or> c = Exact 0) \<and>
         media_loop reqBody c 0 [] = Some [] \<and>
         parseInt (JStr ''0'') = Inr (Exact 0) \<and>
         media_loop reqBody (Exact 0) 0 [] = Some []"
  proof (cases "own_prop reqBody ''NumMedia'' = JUndefined")
    case True
    then have "parseInt (default_to (own_prop reqBody ''NumMedia'') (JStr ''0'')) = Inr (Exact 0)"
      by (simp add: default_to_def zero)
    with zero l0 show ?thesis by blast
  next
    case False
    with a obtain s where s: "to_string (own_prop reqBody ''NumMedia'') = Inr s"
      and d: "\<not> leading_digit s" by blast
    with False have "parseInt (default_to (own_prop reqBody ''NumMedia'') (JStr ''0'')) = Inr NaN"
      by (simp add: default_to_def parseInt_def to_count_def parse_digits_None [symmetric])
    with zero l0 ln show ?thesis by blast
  qed
next
  fix ds rest
  assume b: "to_string (own_prop reqBody ''NumMedia'') = Inr (ds @ rest) \<and>
      ds \<noteq> [] \<and> list_all is_digit ds \<and> (rest = [] \<or> \<not> is_digit (hd rest))"
  then have p: "parse_digits (ds @ rest) = Some (digits_val ds)"
    by (simp add: parse_digits_leading)
  have "own_prop reqBody ''NumMedia'' \<noteq> JUndefined"
  proof
    assume "own_prop reqBody ''NumMedia'' = JUndefined"
    with b have "ds @ rest = ''undefined''" by simp
    with b obtain ds' where "ds = CHR ''u'' # ds'" by (cases ds) auto
    with b show False by (simp add: is_digit_def)
  qed
  with b p show "parseInt (default_to (own_prop reqBody ''NumMedia'') (JStr ''0'')) =
        Inr (to_count (Some (digits_val ds)))"
    by (simp add: default_to_def parseInt_def)
qed

text \<open>
  A body whose \<^verbatim>\<open>NumMedia\<close> is \<^verbatim>\<open>abc\<close>, with a \<^verbatim>\<open>MediaUrl0\<close> that is not collected,
  and a body whose \<^verbatim>\<open>NumMedia\<close> is \<^verbatim>\<open>2abc\<close>, read as the count 2.
\<close>

theorem count_without_digits_witness:
  "to_string (own_prop (JObj [(''NumMedia'', JStr ''abc''), (''MediaUrl0'', JStr ''u'')]) ''NumMedia'')
     = Inr ''abc'' \<and>
   \<not> leading_digit ''abc'' \<and>
   parseInt (default_to
      (own_prop (JObj [(''NumMedia'', JStr ''abc''), (''MediaUrl0'', JStr ''u'')]) ''NumMedia'')
      (JStr ''0'')) = Inr NaN \<and>
   media_loop (JObj [(''NumMedia'', JStr ''abc''), (''MediaUrl0'', JStr ''u'')]) NaN 0 [] = Some [] \<and>
   to_string (own_prop (JObj [(''NumMedia'', JStr ''2abc'')]) ''NumMedia'') = Inr (''2'' @ ''abc'') \<and>
   list_all is_digit ''2'' \<and> \<not> is_digit (hd ''abc'') \<and>
   parseInt (default_to (own_prop (JObj [(''NumMedia'', JStr ''2abc'')]) ''NumMedia'') (JStr ''0''))
     = Inr (Exact 2)"
proof -
  let ?b = "JObj [(''NumMedia'', JStr ''abc''), (''MediaUrl0'', JStr ''u'')]"
  let ?b2 = "JObj [(''NumMedia'', JStr ''2abc'')]"
  have s: "to_string (own_prop ?b ''NumMedia'') = Inr ''abc''" by simp
  have d: "\<not> leading_digit ''abc''"
    by (simp add: leading_digit_def unsigned_def is_digit_def ws1_def ws2_def ws3_def)
  from s d have "own_prop ?b ''NumMedia'' = JUndefined \<or>
           (\<exists>s. to_string (own_prop ?b ''NumMedia'') = Inr s \<and> \<not> leading_digit s)"
    by blast
  with count_without_digits [of ?b] obtain c where
    c: "parseInt (default_to (own_prop ?b ''NumMedia'') (JStr ''0'')) = Inr c" and
    l: "media_loop ?b c 0 [] = Some []"
    by blast
  have "parseInt (default_to (own_prop ?b ''NumMedia'') (JStr ''0'')) = Inr NaN"
    by (simp add: eval_parse)
  with c l have first: "parseInt (default_to (own_prop ?b ''NumMedia'') (JStr ''0'')) = Inr NaN \<and>
      media_loop ?b NaN 0 [] = Some []"
    by simp
  have s2: "to_string (own_prop ?b2 ''NumMedia'') = Inr (''2'' @ ''abc'')" by simp
  have g: "list_all is_digit ''2''" and r: "\<not> is_digit (hd ''abc'')"
    by (simp_all add: is_digit_def)
  from s2 g r have "to_string (own_prop ?b2 ''NumMedia'') = Inr (''2'' @ ''abc'') \<and>
      ''2'' \<noteq> [] \<and> list_all is_digit ''2'' \<and> (''abc'' = [] \<or> \<not> is_digit (hd ''abc''))"
    by simp
  with count_without_digits [of ?b2]
  have "parseInt (default_to (own_prop ?b2 ''NumMedia'') (JStr ''0'')) =
        Inr (to_count (Some (digits_val ''2'')))"
    by blast
  then have second: "parseInt (default_to (own_prop ?b2 ''NumMedia'') (JStr ''0'')) = Inr (Exact 2)"
    by (simp add: to_count_def digits_val_def digit_val_def)
  from s d first s2 g r second show ?thesis by blast
qed

end
